theory Spec2Isabelle
  imports Complex_Main "HOL-Library.Sublist"
begin

section \<open>Numbers and text as the program has them\<close>

text \<open>
  The scorer is Python. Its floats are modelled as exact reals (every constant of the
  source is a short decimal), its integers as \<open>nat\<close> where they are counts and as
  \<open>int\<close> where they are levels, and its \<open>str\<close> values as lists of code points.
  \<open>round(x, 3)\<close> is rounding to three decimals, ties to the even neighbour.
\<close>

definition round_half_even :: "real \<Rightarrow> int" where
  "round_half_even y =
     (let f = \<lfloor>y\<rfloor>; d = y - of_int f
      in if d < 1 / 2 then f else if 1 / 2 < d then f + 1 else if even f then f else f + 1)"

definition round3 :: "real \<Rightarrow> real" where
  "round3 x = of_int (round_half_even (x * 1000)) / 1000"

type_synonym str = "nat list"

text \<open>A string literal of the source. All of them are ASCII, but for one em dash.\<close>

definition ascii :: "string \<Rightarrow> str" where
  "ascii cs = map of_char cs"

subsection \<open>The tables of the Unicode database\<close>

text \<open>
  What \<open>str.lower()\<close>, \<open>\d\<close>, \<open>\b\<close> and \<open>re.IGNORECASE\<close> do with a character outside
  ASCII is read from the tables of the Unicode database the interpreter carries, which
  change from one version to the next. The model takes them as a parameter, and every
  property is proved for all tables:

    \<^item> \<open>lower_at s i\<close> is what \<open>s.lower()\<close> puts in the place of the character at index \<open>i\<close>
      of \<open>s\<close>: one to three characters, chosen with a look at the neighbours for the
      Greek capital sigma;
    \<^item> \<open>isalnum c\<close> and \<open>isdecimal c\<close> are the \<open>str\<close> methods of these names on the
      character \<open>c\<close>; \<open>\w\<close> is \<open>isalnum\<close> or the underscore, \<open>\d\<close> is \<open>isdecimal\<close>;
    \<^item> \<open>caseless p c\<close> tells whether the character \<open>c\<close> of the text matches the pattern
      character \<open>p\<close> when case is ignored, \<open>caseless_in rs c\<close> whether it falls in the
      set of the ranges \<open>rs\<close> then.

  The tables are asked about characters from 128 on only: on ASCII, what the interpreter
  does is written out below. White space is the same set in every version with
  f-strings, and written out too.
\<close>

record unicode_data =
  lower_at :: "str \<Rightarrow> nat \<Rightarrow> str"
  isalnum :: "nat \<Rightarrow> bool"
  isdecimal :: "nat \<Rightarrow> bool"
  caseless :: "char \<Rightarrow> nat \<Rightarrow> bool"
  caseless_in :: "(char \<times> char) list \<Rightarrow> nat \<Rightarrow> bool"

subsection \<open>The \<open>str\<close> methods the analyzers call\<close>

text \<open>\<open>c.isspace()\<close>, the white space of \<open>split\<close>, \<open>strip\<close> and \<open>\s\<close>.\<close>

definition is_space :: "nat \<Rightarrow> bool" where
  "is_space c =
     (if c < 128 then (9 \<le> c \<and> c \<le> 13) \<or> (28 \<le> c \<and> c \<le> 32)
      else c = 0x85 \<or> c = 0xA0 \<or> c = 0x1680 \<or> (0x2000 \<le> c \<and> c \<le> 0x200A)
           \<or> c = 0x2028 \<or> c = 0x2029 \<or> c = 0x202F \<or> c = 0x205F \<or> c = 0x3000)"

definition ascii_lower :: "nat \<Rightarrow> nat" where
  "ascii_lower c = (if 65 \<le> c \<and> c \<le> 90 then c + 32 else c)"

definition ascii_upper :: "nat \<Rightarrow> nat" where
  "ascii_upper c = (if 97 \<le> c \<and> c \<le> 122 then c - 32 else c)"

text \<open>\<open>s.lower()\<close>: character by character, \<open>i\<close> the index in \<open>s\<close> of the next one.\<close>

fun lower_from :: "unicode_data \<Rightarrow> str \<Rightarrow> nat \<Rightarrow> str \<Rightarrow> str" where
  "lower_from ud s i [] = []"
| "lower_from ud s i (c # cs) =
     (if c < 128 then [ascii_lower c] else lower_at ud s i) @ lower_from ud s (Suc i) cs"

definition str_lower :: "unicode_data \<Rightarrow> str \<Rightarrow> str" where
  "str_lower ud s = lower_from ud s 0 s"

text \<open>\<open>s.strip()\<close>\<close>

definition str_strip :: "str \<Rightarrow> str" where
  "str_strip s = rev (dropWhile is_space (rev (dropWhile is_space s)))"

text \<open>\<open>s.split()\<close>: the maximal runs of characters that are not white space, in order.\<close>

fun words_acc :: "str \<Rightarrow> str \<Rightarrow> str list" where
  "words_acc cur [] = (if cur = [] then [] else [rev cur])"
| "words_acc cur (c # cs) =
     (if is_space c then (if cur = [] then words_acc [] cs else rev cur # words_acc [] cs)
      else words_acc (c # cur) cs)"

definition str_split :: "str \<Rightarrow> str list" where
  "str_split s = words_acc [] s"

text \<open>\<open>sub in s\<close>\<close>

fun str_in :: "str \<Rightarrow> str \<Rightarrow> bool" where
  "str_in sub [] = (sub = [])"
| "str_in sub (c # cs) = (prefix sub (c # cs) \<or> str_in sub cs)"

text \<open>\<open>s.count(sub)\<close>: occurrences that do not overlap, scanning from the left.\<close>

fun count_from :: "str \<Rightarrow> nat \<Rightarrow> str \<Rightarrow> nat" where
  "count_from sub skip [] = (if sub = [] then 1 else 0)"
| "count_from sub skip (c # cs) =
     (if 0 < skip then count_from sub (skip - 1) cs
      else if prefix sub (c # cs) then 1 + count_from sub (length sub - 1) cs
      else count_from sub 0 cs)"

definition str_count :: "str \<Rightarrow> str \<Rightarrow> nat" where
  "str_count s sub = count_from sub 0 s"

text \<open>\<open>sum(1 for k in keys if k in text)\<close>, the idiom of most keyword tables.\<close>

definition count_present :: "string list \<Rightarrow> str \<Rightarrow> nat" where
  "count_present keys text = length (filter (\<lambda>k. str_in (ascii k) text) keys)"

text \<open>\<open>xs[-n:]\<close>\<close>

definition last_n :: "nat \<Rightarrow> 'a list \<Rightarrow> 'a list" where
  "last_n n xs = drop (length xs - n) xs"

text \<open>
  \<open>max(items, key=f)\<close> on a non-empty sequence: the first item whose key is maximal
  (a later item replaces the current best only when its key is strictly greater).
\<close>

fun max_by_from :: "('a \<Rightarrow> real) \<Rightarrow> 'a \<Rightarrow> 'a list \<Rightarrow> 'a" where
  "max_by_from key best [] = best"
| "max_by_from key best (x # xs) = max_by_from key (if key best < key x then x else best) xs"

fun max_by :: "('a \<Rightarrow> real) \<Rightarrow> 'a list \<Rightarrow> 'a option" where
  "max_by key [] = None"
| "max_by key (x # xs) = Some (max_by_from key x xs)"

subsection \<open>Regular expressions\<close>

text \<open>
  The patterns of the source are written as syntax trees; the matcher is a backtracking
  one, as Python's \<open>re\<close> is: \<open>ends\<close> lists the positions where a match that starts at
  \<open>i\<close> can end, in the order in which backtracking tries them, so that the head of the
  list is the match \<open>re\<close> reports. An iteration of a repetition has to consume at least
  one character (no pattern of the program repeats something that can match the empty
  string more than once). \<open>Digit\<close> is \<open>\d\<close>, \<open>Space\<close> is \<open>\s\<close>, \<open>WordB\<close> is \<open>\b\<close>; the
  characters and ranges written in a pattern are ASCII.
\<close>

datatype rx =
    Lit char
  | Dot
  | Cls bool "(char \<times> char) list"
  | Digit
  | Space
  | Eps
  | Seq rx rx
  | Alt rx rx
  | Rep bool nat "nat option" rx
  | Bol
  | Eol
  | WordB
  | Look rx

record flags =
  ignorecase :: bool
  multiline :: bool

definition no_flags :: flags where
  "no_flags = \<lparr>ignorecase = False, multiline = False\<rparr>"

definition in_ranges :: "(char \<times> char) list \<Rightarrow> nat \<Rightarrow> bool" where
  "in_ranges rs c = list_ex (\<lambda>(lo, hi). of_char lo \<le> c \<and> c \<le> of_char hi) rs"

definition is_decimal :: "unicode_data \<Rightarrow> nat \<Rightarrow> bool" where
  "is_decimal ud c = (if c < 128 then 48 \<le> c \<and> c \<le> 57 else isdecimal ud c)"

definition is_word :: "unicode_data \<Rightarrow> nat \<Rightarrow> bool" where
  "is_word ud c =
     (if c < 128
      then in_ranges [(CHR ''a'', CHR ''z''), (CHR ''A'', CHR ''Z''), (CHR ''0'', CHR ''9''),
                      (CHR ''_'', CHR ''_'')] c
      else isalnum ud c)"

definition char_at :: "str \<Rightarrow> nat \<Rightarrow> nat option" where
  "char_at s i = (if i < length s then Some (s ! i) else None)"

definition word_at :: "unicode_data \<Rightarrow> str \<Rightarrow> nat \<Rightarrow> bool" where
  "word_at ud s i = (case char_at s i of None \<Rightarrow> False | Some c \<Rightarrow> is_word ud c)"

definition lit_ok :: "unicode_data \<Rightarrow> flags \<Rightarrow> char \<Rightarrow> nat \<Rightarrow> bool" where
  "lit_ok ud f p c =
     (if ignorecase f
      then (if c < 128 then ascii_lower (of_char p) = ascii_lower c else caseless ud p c)
      else of_char p = c)"

definition cls_ok :: "unicode_data \<Rightarrow> flags \<Rightarrow> bool \<Rightarrow> (char \<times> char) list \<Rightarrow> nat \<Rightarrow> bool" where
  "cls_ok ud f neg rs c =
     (let hit = (if ignorecase f
                 then (if c < 128
                       then in_ranges rs c \<or> in_ranges rs (ascii_lower c)
                            \<or> in_ranges rs (ascii_upper c)
                       else caseless_in ud rs c)
                 else in_ranges rs c)
      in if neg then \<not> hit else hit)"

definition one_char :: "str \<Rightarrow> nat \<Rightarrow> (nat \<Rightarrow> bool) \<Rightarrow> nat list" where
  "one_char s i ok = (case char_at s i of None \<Rightarrow> [] | Some c \<Rightarrow> if ok c then [Suc i] else [])"

definition dec_max :: "nat option \<Rightarrow> nat option" where
  "dec_max hi = (case hi of None \<Rightarrow> None | Some n \<Rightarrow> Some (n - 1))"

fun reps :: "(nat \<Rightarrow> nat list) \<Rightarrow> bool \<Rightarrow> nat \<Rightarrow> nat option \<Rightarrow> nat \<Rightarrow> nat \<Rightarrow> nat list" where
  "reps step greedy lo hi 0 i = (if lo = 0 then [i] else [])"
| "reps step greedy lo hi (Suc fuel) i =
     (let more = (if hi = Some 0 then []
                  else concat (map (\<lambda>j. if i < j then reps step greedy (lo - 1) (dec_max hi) fuel j else [])
                                   (step i)));
          stop = (if lo = 0 then [i] else [])
      in if greedy then more @ stop else stop @ more)"

fun ends :: "unicode_data \<Rightarrow> flags \<Rightarrow> str \<Rightarrow> rx \<Rightarrow> nat \<Rightarrow> nat list" where
  "ends ud f s (Lit p) i = one_char s i (lit_ok ud f p)"
| "ends ud f s Dot i = one_char s i (\<lambda>c. c \<noteq> 0x0A)"
| "ends ud f s (Cls neg rs) i = one_char s i (cls_ok ud f neg rs)"
| "ends ud f s Digit i = one_char s i (is_decimal ud)"
| "ends ud f s Space i = one_char s i is_space"
| "ends ud f s Eps i = [i]"
| "ends ud f s (Seq a b) i = concat (map (\<lambda>j. ends ud f s b j) (ends ud f s a i))"
| "ends ud f s (Alt a b) i = ends ud f s a i @ ends ud f s b i"
| "ends ud f s (Rep greedy lo hi a) i =
     reps (\<lambda>j. ends ud f s a j) greedy lo hi (Suc (length s)) i"
| "ends ud f s Bol i =
     (if i = 0 \<or> (multiline f \<and> char_at s (i - 1) = Some 0x0A) then [i] else [])"
| "ends ud f s Eol i =
     (if i = length s \<or> (Suc i = length s \<and> char_at s i = Some 0x0A)
         \<or> (multiline f \<and> char_at s i = Some 0x0A) then [i] else [])"
| "ends ud f s WordB i =
     (if (0 < i \<and> word_at ud s (i - 1)) \<noteq> word_at ud s i then [i] else [])"
| "ends ud f s (Look a) i = (if ends ud f s a i = [] then [] else [i])"

text \<open>
  The spans \<open>(start, end)\<close> of the successive matches, as \<open>re.finditer\<close> walks the
  text: leftmost first, the next search resuming where the last match ended.
\<close>

function find_from :: "unicode_data \<Rightarrow> flags \<Rightarrow> rx \<Rightarrow> str \<Rightarrow> nat \<Rightarrow> (nat \<times> nat) list" where
  "find_from ud f r s p =
     (if length s < p then []
      else case ends ud f s r p of
             [] \<Rightarrow> find_from ud f r s (Suc p)
           | e # _ \<Rightarrow> (p, e) # find_from ud f r s (max e (Suc p)))"
  by pat_completeness auto
termination
  by (relation "measure (\<lambda>(ud, f, r, s, p). Suc (length s) - p)") auto

definition slice :: "str \<Rightarrow> nat \<Rightarrow> nat \<Rightarrow> str" where
  "slice s a b = take (b - a) (drop a s)"

text \<open>\<open>re.search(r, s)\<close> as a truth value, \<open>len(re.findall(r, s))\<close>, and the texts of
  \<open>m.group(0) for m in re.finditer(r, s)\<close>.\<close>

definition re_search :: "unicode_data \<Rightarrow> flags \<Rightarrow> rx \<Rightarrow> str \<Rightarrow> bool" where
  "re_search ud f r s = list_ex (\<lambda>p. ends ud f s r p \<noteq> []) [0 ..< Suc (length s)]"

definition re_count :: "unicode_data \<Rightarrow> flags \<Rightarrow> rx \<Rightarrow> str \<Rightarrow> nat" where
  "re_count ud f r s = length (find_from ud f r s 0)"

definition re_finditer :: "unicode_data \<Rightarrow> flags \<Rightarrow> rx \<Rightarrow> str \<Rightarrow> str list" where
  "re_finditer ud f r s = map (\<lambda>(a, b). slice s a b) (find_from ud f r s 0)"

text \<open>\<open>re.split(r, s)\<close> for a pattern without groups: the pieces between the matches.\<close>

fun pieces :: "str \<Rightarrow> nat \<Rightarrow> (nat \<times> nat) list \<Rightarrow> str list" where
  "pieces s p [] = [drop p s]"
| "pieces s p ((a, b) # ms) = slice s p a # pieces s b ms"

definition re_split :: "unicode_data \<Rightarrow> rx \<Rightarrow> str \<Rightarrow> str list" where
  "re_split ud r s = pieces s 0 (find_from ud no_flags r s 0)"

text \<open>\<open>re.sub(r, repl, s)\<close> for a replacement without group references.\<close>

fun join :: "str \<Rightarrow> str list \<Rightarrow> str" where
  "join sep [] = []"
| "join sep [x] = x"
| "join sep (x # y # ys) = x @ sep @ join sep (y # ys)"

definition re_sub :: "unicode_data \<Rightarrow> rx \<Rightarrow> str \<Rightarrow> str \<Rightarrow> str" where
  "re_sub ud r repl s = join repl (re_split ud r s)"

text \<open>Shorthands that keep a syntax tree close to the pattern it stands for.\<close>

definition lit :: "string \<Rightarrow> rx" where
  "lit w = foldr (\<lambda>c r. Seq (Lit c) r) w Eps"

fun seqs :: "rx list \<Rightarrow> rx" where
  "seqs [] = Eps"
| "seqs [r] = r"
| "seqs (r # rs) = Seq r (seqs rs)"

fun alts :: "rx list \<Rightarrow> rx" where
  "alts [] = Eps"
| "alts [r] = r"
| "alts (r # rs) = Alt r (alts rs)"

definition any_of :: "string list \<Rightarrow> rx" where
  "any_of ws = alts (map lit ws)"

definition plus :: "rx \<Rightarrow> rx" where
  "plus r = Rep True 1 None r"

definition lazy_plus :: "rx \<Rightarrow> rx" where
  "lazy_plus r = Rep False 1 None r"

definition star :: "rx \<Rightarrow> rx" where
  "star r = Rep True 0 None r"

definition opt :: "rx \<Rightarrow> rx" where
  "opt r = Rep True 0 (Some 1) r"

definition none_of :: "string \<Rightarrow> rx" where
  "none_of cs = Cls True (map (\<lambda>c. (c, c)) cs)"

definition newline :: rx where
  "newline = Lit (CHR 0x0A)"

text \<open>\<open>rf'\\b{re.escape(keyword)}\\b'\<close>\<close>

definition whole_word :: "string \<Rightarrow> rx" where
  "whole_word k = seqs [WordB, lit k, WordB]"

section \<open>IAI: the quality of the prompt (\<open>dimensions/iai.py\<close>)\<close>

text \<open>
  Each analyzer returns a dictionary; the model keeps the numbers of it (scores,
  counts, levels, detected patterns) and leaves out its explanatory strings, which are
  chosen from the numbers and feed nothing.
\<close>

definition context_keywords :: "string list" where
  "context_keywords = [''for'', ''about'', ''context'', ''because'', ''since'', ''given'']"

definition concrete_words :: "string list" where
  "concrete_words = [''specific'', ''exact'', ''precise'', ''concrete'', ''detailed'']"

definition parameters :: "string list" where
  "parameters = [''number'', ''count'', ''length'', ''size'', ''time'', ''budget'']"

definition organizers :: "string list" where
  "organizers = [''first'', ''second'', ''then'', ''finally'', ''step'']"

definition optimal_min :: nat where
  "optimal_min = 20"

definition optimal_max :: nat where
  "optimal_max = 150"

definition clarity_indicators :: "string list" where
  "clarity_indicators = [''please'', ''clearly'', ''specifically'']"

text \<open>\<open>[.!?]+\<close>, the sentence separator of IAI, CAI and PAS.\<close>

definition sentence_end :: rx where
  "sentence_end = plus (Cls False [(CHR ''.'', CHR ''.''), (CHR ''!'', CHR ''!''), (CHR ''?'', CHR ''?'')])"

definition score_context_completeness :: "unicode_data \<Rightarrow> str \<Rightarrow> real" where
  "score_context_completeness ud prompt =
     (let context_markers = count_present context_keywords (str_lower ud prompt)
      in min (real context_markers / 3) 1.0)"

definition score_specificity :: "unicode_data \<Rightarrow> str \<Rightarrow> nat \<Rightarrow> real" where
  "score_specificity ud prompt word_count =
     (let prompt_lower = str_lower ud prompt;
          concrete_score = count_present concrete_words prompt_lower;
          param_score = count_present parameters prompt_lower;
          specificity = (real concrete_score * 0.7 + real param_score * 0.3) / 5
      in min specificity 1.0)"

definition score_language_quality :: "str \<Rightarrow> nat \<Rightarrow> nat \<Rightarrow> real" where
  "score_language_quality prompt sentence_count word_count =
     (if word_count = 0 then 0.0
      else let avg_sentence_length = real word_count / real (max sentence_count 1)
           in if avg_sentence_length < 5 then 0.3
              else if avg_sentence_length \<le> 20 then 0.8
              else if avg_sentence_length \<le> 30 then 0.5
              else 0.2)"

definition score_structure :: "unicode_data \<Rightarrow> str \<Rightarrow> real" where
  "score_structure ud prompt =
     (let prompt_lower = str_lower ud prompt;
          n_organizers = count_present organizers prompt_lower;
          has_question = str_in (ascii ''?'') prompt;
          question_bonus = (if has_question then 0.2 else 0);
          structure_score = min (real n_organizers / 3) 0.8 + question_bonus
      in min structure_score 1.0)"

definition score_sufficiency :: "nat \<Rightarrow> real" where
  "score_sufficiency word_count =
     (if word_count < 5 then 0.1
      else if word_count < optimal_min
        then 0.3 + (real word_count / real optimal_min) * 0.3
      else if word_count \<le> optimal_max
        then 0.6 + ((real word_count - real optimal_min) / (real optimal_max - real optimal_min)) * 0.3
      else 0.9)"

definition score_tone :: "unicode_data \<Rightarrow> str \<Rightarrow> real" where
  "score_tone ud prompt =
     (let n_clarity = count_present clarity_indicators (str_lower ud prompt);
          base_score = 0.6;
          clarity_bonus = min (real n_clarity * 0.2) 0.4
      in min (base_score + clarity_bonus) 1.0)"

record iai_components =
  context_completeness :: real
  specificity_level :: real
  language_quality :: real
  structure_quality :: real
  information_sufficiency :: real
  tone_sentiment :: real

record iai_result =
  iai_score :: real
  components :: iai_components
  word_count :: nat
  sentence_count :: nat

definition iai_weighted :: "iai_components \<Rightarrow> real" where
  "iai_weighted c =
     context_completeness c * 0.20 + specificity_level c * 0.25 + language_quality c * 0.20
     + structure_quality c * 0.15 + information_sufficiency c * 0.10 + tone_sentiment c * 0.10"

definition iai_analyze :: "unicode_data \<Rightarrow> str \<Rightarrow> iai_result" where
  "iai_analyze ud prompt =
     (let wc = length (str_split prompt);
          sc = length (filter (\<lambda>s. str_strip s \<noteq> []) (re_split ud sentence_end prompt));
          comps = \<lparr>context_completeness = score_context_completeness ud prompt,
                   specificity_level = score_specificity ud prompt wc,
                   language_quality = score_language_quality prompt sc wc,
                   structure_quality = score_structure ud prompt,
                   information_sufficiency = score_sufficiency wc,
                   tone_sentiment = score_tone ud prompt\<rparr>;
          score = iai_weighted comps
      in \<lparr>iai_score = min score 1.0, components = comps, word_count = wc, sentence_count = sc\<rparr>)"

section \<open>CAI: conceptual anchors in the response (\<open>dimensions/cai.py\<close>)\<close>

datatype anchor_type = boundary_anchors | analogy_anchors | hypothesis_anchors

text \<open>\<open>([^.!?]+?(?=\.|\?|!|,|$))\<close>, the tail every anchor pattern ends with.\<close>

definition anchor_tail :: rx where
  "anchor_tail =
     Seq (lazy_plus (none_of ''.!?''))
         (Look (alts [Lit (CHR ''.''), Lit (CHR ''?''), Lit (CHR ''!''), Lit (CHR '',''), Eol]))"

text \<open>A pattern of the shape \<open>(?:w1|w2|...) TAIL\<close>.\<close>

definition lead_in :: "string list \<Rightarrow> rx" where
  "lead_in ws = seqs [any_of ws, lit '' '', anchor_tail]"

definition anchor_patterns :: "anchor_type \<Rightarrow> rx list" where
  "anchor_patterns t =
     (case t of
        boundary_anchors \<Rightarrow>
          [seqs [alts [lit ''this is'', lit ''we are'', Seq (lit ''focus'') (opt (lit ''ing'')),
                       Seq (lit ''concentrat'') (any_of [''ing'', ''e''])],
                 lit '' '', any_of [''on'', ''about''], lit '' '', anchor_tail],
           lead_in [''not about'', ''excluding'', ''without'', ''ignore''],
           lead_in [''scope is'', ''limited to'', ''specifically''],
           lead_in [''rather than'', ''instead of''],
           lead_in [''this isn't about'', ''this is not about'']]
      | analogy_anchors \<Rightarrow>
          [seqs [any_of [''like'', ''similar to'', ''comparable to''], lit '' '',
                 opt (any_of [''a '', ''an '']), anchor_tail],
           seqs [any_of [''think of'', ''imagine'', ''picture''], lit '' '',
                 opt (any_of [''it as '', ''this as '']), opt (any_of [''a '', ''an '']), anchor_tail],
           lead_in [''as if'', ''as though''],
           lead_in [''analogous to'', ''akin to''],
           seqs [any_of [''metaphor'', ''analogy''], lit '' '', any_of [''of'', ''for''], lit '' '',
                 anchor_tail]]
      | hypothesis_anchors \<Rightarrow>
          [seqs [any_of [''if'', ''when''], lit '' '', anchor_tail, opt (lit '',''), lit '' '',
                 opt (lit ''then ''), anchor_tail],
           seqs [any_of [''might'', ''could'', ''would'', ''should''], lit '' '', anchor_tail, lit '' '',
                 any_of [''if'', ''when''], lit '' '', anchor_tail],
           seqs [any_of [''hypothesis'', ''theory'', ''assumption''], opt (lit '':''), lit '' '',
                 anchor_tail],
           lead_in [''we can test'', ''let's test'', ''test this by''],
           lead_in [''suppose'', ''assuming'']])"

definition min_specificity_words :: nat where
  "min_specificity_words = 1"

definition banned_vague_terms :: "string list" where
  "banned_vague_terms = [''this thing'', ''that stuff'', ''something'']"

definition filler_words :: "string list" where
  "filler_words = [''and'', ''or'', ''but'', ''so'', ''then'', ''also'']"

definition clean_anchor_text :: "unicode_data \<Rightarrow> str \<Rightarrow> str" where
  "clean_anchor_text ud text0 =
     (let text1 = str_strip (re_sub ud (plus Space) (ascii '' '') text0);
          text2 = re_sub ud (seqs [Bol, any_of filler_words, plus Space]) [] text1
      in re_sub ud (seqs [plus Space, any_of filler_words, Eol]) [] text2)"

definition validate_anchor :: "str \<Rightarrow> anchor_type \<Rightarrow> bool" where
  "validate_anchor anchor_text t =
     (let ws = str_split anchor_text
      in if length ws < min_specificity_words then False
         else if list_ex (\<lambda>term. str_in (ascii term) anchor_text) banned_vague_terms then False
         else if t = analogy_anchors
           then (let meaningful_words = filter (\<lambda>w. 2 < length w) ws
                 in if length meaningful_words < 1 then False else True)
         else if t = hypothesis_anchors
           then (if length ws < 2 then False else True)
         else True)"

text \<open>
  The anchors of one family: for each pattern, for each non-empty stripped sentence,
  for each match, the cleaned text of the match when it is valid. (Every pattern of the
  tables is well formed, so the skip on \<open>re.error\<close> is never taken.)
\<close>

definition anchors_in_sentence :: "unicode_data \<Rightarrow> anchor_type \<Rightarrow> rx \<Rightarrow> str \<Rightarrow> str list" where
  "anchors_in_sentence ud t pattern sentence0 =
     (let sentence = str_strip sentence0
      in if sentence = [] then []
         else filter (\<lambda>a. validate_anchor a t)
                (map (clean_anchor_text ud) (re_finditer ud no_flags pattern sentence)))"

definition anchors_of_type :: "unicode_data \<Rightarrow> anchor_type \<Rightarrow> str list \<Rightarrow> str list" where
  "anchors_of_type ud t sentences =
     concat (map (\<lambda>pattern. concat (map (anchors_in_sentence ud t pattern) sentences))
                 (anchor_patterns t))"

record cai_result =
  cai_score :: real
  boundary_found :: "str list"
  analogy_found :: "str list"
  hypothesis_found :: "str list"
  total_valid_anchors :: nat

definition cai_analyze :: "unicode_data \<Rightarrow> str \<Rightarrow> cai_result" where
  "cai_analyze ud text0 =
     (let text_lower = str_lower ud text0;
          sentences = re_split ud sentence_end text_lower;
          b = anchors_of_type ud boundary_anchors sentences;
          a = anchors_of_type ud analogy_anchors sentences;
          h = anchors_of_type ud hypothesis_anchors sentences;
          total = length b + length a + length h;
          score = (if total = 0 then 0.0
                   else if total = 1 then 0.25
                   else if total = 2 then 0.5
                   else if total = 3 then 0.75
                   else 1.0)
      in \<lparr>cai_score = score, boundary_found = b, analogy_found = a, hypothesis_found = h,
          total_valid_anchors = total\<rparr>)"

section \<open>PAS: the process quality of the response (\<open>dimensions/pas.py\<close>)\<close>

text \<open>\<open>\n- \<close>, \<open>\n\* \<close> and \<open>\n\d+\.\<close>, the list markers.\<close>

definition list_patterns :: "rx list" where
  "list_patterns = [seqs [newline, lit ''- ''], seqs [newline, lit ''* ''],
                    seqs [newline, plus Digit, Lit (CHR ''.'')]]"

text \<open>\<open>^#+\<close> and \<open>^[A-Z][^.!?]*:\<close>, searched with \<open>re.MULTILINE\<close>.\<close>

definition heading_like :: rx where
  "heading_like = seqs [Bol, Cls False [(CHR ''A'', CHR ''Z'')], star (none_of ''.!?''), Lit (CHR '':'')]"

definition heading_patterns :: "rx list" where
  "heading_patterns = [seqs [Bol, plus (Lit (CHR ''#''))], heading_like]"

definition multiline_flags :: flags where
  "multiline_flags = \<lparr>ignorecase = False, multiline = True\<rparr>"

definition sequencing_words :: "string list" where
  "sequencing_words = [''first'', ''next'', ''then'', ''finally'', ''step'', ''phase'']"

definition structural_elements :: "string list" where
  "structural_elements = [''table:'', ''chart:'', ''diagram:'', ''summary:'']"

definition collaboration_phrases :: "string list" where
  "collaboration_phrases =
     [''let's'', ''we can'', ''we should'', ''our'', ''together'', ''collaborate'',
      ''what do you think'', ''how about'', ''your thoughts'', ''partner'',
      ''does this make sense'', ''shall we'', ''would you like'', ''build with'']"

text \<open>The second indicator is the em dash, U+2014.\<close>

definition pause_indicators :: "str list" where
  "pause_indicators = [ascii ''...'', [0x2014], ascii ''briefly'', ascii ''in summary'',
                        ascii ''to recap'']"

definition analyze_chunking :: "unicode_data \<Rightarrow> str \<Rightarrow> real" where
  "analyze_chunking ud text0 =
     (let paragraphs = re_split ud (seqs [newline, plus newline]) text0;
          score1 = (if 1 < length paragraphs then 0.3 else 0.0);
          seq_count = count_present sequencing_words (str_lower ud text0);
          score2 = score1 + min (real seq_count * 0.15) 0.3;
          list_count = sum_list (map (\<lambda>pattern. re_count ud no_flags pattern text0) list_patterns);
          score3 = score2 + min (real list_count * 0.1) 0.4
      in min score3 1.0)"

definition analyze_structure :: "unicode_data \<Rightarrow> str \<Rightarrow> real" where
  "analyze_structure ud text0 =
     (let has_headings = list_ex (\<lambda>pattern. re_search ud multiline_flags pattern text0) heading_patterns;
          score1 = (if has_headings then 0.4 else 0.0);
          list_count = re_count ud no_flags
                         (alts [seqs [newline, plus Digit, Lit (CHR ''.'')],
                                seqs [newline, lit ''- ''], seqs [newline, lit ''* '']]) text0;
          score2 = (if 2 \<le> list_count then score1 + 0.4
                    else if list_count = 1 then score1 + 0.2 else score1);
          has_elements = list_ex (\<lambda>element. str_in (ascii element) (str_lower ud text0)) structural_elements;
          score3 = (if has_elements then score2 + 0.2 else score2)
      in min score3 1.0)"

definition analyze_collaboration :: "unicode_data \<Rightarrow> str \<Rightarrow> real" where
  "analyze_collaboration ud text0 =
     (let collab_count = count_present collaboration_phrases (str_lower ud text0)
      in if 3 \<le> collab_count then 1.0
         else if collab_count = 2 then 0.7
         else if collab_count = 1 then 0.4
         else 0.1)"

text \<open>\<open>max(xs)\<close> and \<open>min(xs)\<close> of a non-empty list of lengths.\<close>

definition list_max :: "nat list \<Rightarrow> nat" where
  "list_max xs = foldr max xs 0"

definition list_min :: "nat list \<Rightarrow> nat" where
  "list_min xs = (case xs of [] \<Rightarrow> 0 | x # ys \<Rightarrow> foldr min ys x)"

definition analyze_rhythm :: "unicode_data \<Rightarrow> str \<Rightarrow> real" where
  "analyze_rhythm ud text0 =
     (let question_count = str_count text0 (ascii ''?'');
          score1 = min (real question_count * 0.2) 0.4;
          pause_count = sum_list (map (\<lambda>indicator. str_count text0 indicator) pause_indicators);
          score2 = score1 + min (real pause_count * 0.15) 0.3;
          sentences = re_split ud sentence_end text0;
          score3 =
            (if 3 \<le> length sentences
             then (let sentence_lengths = map (\<lambda>sent. length (str_strip sent))
                                            (filter (\<lambda>sent. str_strip sent \<noteq> []) sentences)
                   in if sentence_lengths \<noteq> []
                      then (let variation = (if 0 < list_min sentence_lengths
                                             then real (list_max sentence_lengths) / real (list_min sentence_lengths)
                                             else 1)
                            in if 2 \<le> variation \<and> variation \<le> 5 then score2 + 0.3 else score2)
                      else score2)
             else score2)
      in min score3 1.0)"

record pas_result =
  pas_score :: real
  pas_chunking :: real
  pas_structure :: real
  pas_collaboration :: real
  pas_rhythm :: real

definition pas_weighted :: "real \<Rightarrow> real \<Rightarrow> real \<Rightarrow> real \<Rightarrow> real" where
  "pas_weighted ch st co rh = ch * 0.30 + st * 0.25 + co * 0.25 + rh * 0.20"

definition pas_analyze :: "unicode_data \<Rightarrow> str \<Rightarrow> pas_result" where
  "pas_analyze ud response =
     (let ch = analyze_chunking ud response;
          st = analyze_structure ud response;
          co = analyze_collaboration ud response;
          rh = analyze_rhythm ud response
      in \<lparr>pas_score = round3 (pas_weighted ch st co rh),
          pas_chunking = ch, pas_structure = st, pas_collaboration = co, pas_rhythm = rh\<rparr>)"

section \<open>SAS: synchronisation of prompt and response (\<open>dimensions/sas.py\<close>)\<close>

definition style_patterns :: "(string \<times> rx list) list" where
  "style_patterns =
     [(''formal'',
         [seqs [WordB, any_of [''therefore'', ''however'', ''furthermore'', ''consequently'', ''accordingly''], WordB],
          seqs [Cls False [(CHR ''A'', CHR ''Z'')], plus (Cls False [(CHR ''a'', CHR ''z'')]), lit ''ly'', WordB],
          lit ''in conclusion'', lit ''in summary'', lit ''it is evident'']),
      (''informal'',
         [seqs [WordB, any_of [''hey'', ''hi'', ''hello'', ''thanks'', ''cheers'', ''awesome'', ''great'', ''perfect''], WordB],
          lit ''let's'', lit ''we'll'', lit ''we're'', lit ''i'm'', lit ''you're'',
          seqs [Lit (CHR ''!''), star Space, Eol],
          any_of ['':)'', '':D'', '';)'']]),
      (''direct'',
         [heading_like,
          seqs [WordB, any_of [''yes'', ''no'', ''exactly'', ''precisely'', ''correct'', ''incorrect''], WordB],
          seqs [plus Digit, Lit (CHR ''.''), plus Space],
          seqs [Lit (CHR ''-''), plus Space],
          seqs [lit ''key point'', opt (Lit (CHR ''s''))], lit ''main idea'', lit ''bottom line'']),
      (''narrative'',
         [Rep True 30 None (none_of ''.!?''),
          lit ''story'', lit ''example'', lit ''scenario'', lit ''imagine'',
          lit ''for instance'', lit ''to illustrate'', lit ''in other words'']),
      (''data_driven'',
         [seqs [plus Digit, Lit (CHR ''%'')],
          seqs [plus Digit, Lit (CHR ''.''), plus Digit],
          seqs [lit ''statistic'', opt (Lit (CHR ''s''))], lit ''data'',
          lit ''research'', lit ''study'', lit ''analysis'', lit ''metrics'',
          lit ''chart'', lit ''graph'', lit ''table'', lit ''figure''])]"

definition ignorecase_flags :: flags where
  "ignorecase_flags = \<lparr>ignorecase = True, multiline = False\<rparr>"

definition analyze_user_style :: "unicode_data \<Rightarrow> str \<Rightarrow> (string \<times> real) list" where
  "analyze_user_style ud prompt =
     (let prompt_lower = str_lower ud prompt
      in map (\<lambda>(style_name, patterns).
                (style_name,
                 min (sum_list (map (\<lambda>pattern. real (re_count ud ignorecase_flags pattern prompt_lower) * 0.1)
                                    patterns)) 1.0))
             style_patterns)"

definition sas_analyze_ai_style :: "unicode_data \<Rightarrow> str \<Rightarrow> (string \<times> real) list" where
  "sas_analyze_ai_style ud response = analyze_user_style ud response"

text \<open>
  \<open>d[key]\<close> on the style dictionaries. They all have the five keys above, so the
  lookup never fails and \<open>max\<close> never sees an empty sequence; the values given to
  those two cases below are never used.
\<close>

definition style_of :: "(string \<times> real) list \<Rightarrow> string \<Rightarrow> real" where
  "style_of d k = (case map_of d k of Some v \<Rightarrow> v | None \<Rightarrow> 0)"

definition calculate_style_sync :: "(string \<times> real) list \<Rightarrow> (string \<times> real) list \<Rightarrow> real" where
  "calculate_style_sync user_style ai_style =
     (case (max_by snd user_style, max_by snd ai_style) of
        (Some user_dominant, Some ai_dominant) \<Rightarrow>
          (let sync1 = (if fst user_dominant = fst ai_dominant \<and> 0.3 < snd user_dominant
                        then 0.4 else 0.0);
               style_similarity =
                 sum_list (map (\<lambda>(style, u). (1.0 - \<bar>u - style_of ai_style style\<bar>) * 0.2) user_style)
           in min (sync1 + min style_similarity 0.6) 1.0)
      | _ \<Rightarrow> 0)"

definition goal_keywords :: "string list" where
  "goal_keywords =
     [''goal'', ''objective'', ''target'', ''aim'', ''purpose'',
      ''want'', ''need'', ''looking for'', ''trying to'',
      ''achieve'', ''accomplish'', ''solve'', ''fix'']"

definition goal_acknowledgement :: "string list" where
  "goal_acknowledgement =
     [''your goal'', ''your objective'', ''what you want'',
      ''to achieve'', ''to accomplish'', ''as you requested'']"

definition calculate_goal_sync :: "unicode_data \<Rightarrow> str \<Rightarrow> str \<Rightarrow> real" where
  "calculate_goal_sync ud user_prompt ai_response =
     (let prompt_lower = str_lower ud user_prompt;
          response_lower = str_lower ud ai_response;
          user_has_goals = list_ex (\<lambda>keyword. str_in (ascii keyword) prompt_lower) goal_keywords
      in if \<not> user_has_goals then 0.7
         else if list_ex (\<lambda>phrase. str_in (ascii phrase) response_lower) goal_acknowledgement then 0.9
         else 0.6)"

definition expectation_words :: "string list" where
  "expectation_words =
     [''list'', ''bullet'', ''summary'', ''detailed'', ''brief'',
      ''simple'', ''complex'', ''step by step'', ''example'',
      ''explain'', ''define'', ''compare'', ''analyze'']"

text \<open>The \<open>if\<close>/\<open>elif\<close> chain of the loop body, for a word that is in the prompt.\<close>

definition expectation_met :: "string \<Rightarrow> str \<Rightarrow> bool" where
  "expectation_met word response_lower =
     (if word \<in> set [''list'', ''bullet'']
         \<and> (str_in (ascii [CHR 0x0A, CHR ''-'', CHR '' '']) response_lower
            \<or> str_in (ascii [CHR 0x0A, CHR ''*'', CHR '' '']) response_lower) then True
      else if word \<in> set [''summary'', ''brief''] \<and> length (str_split response_lower) < 150 then True
      else if word \<in> set [''detailed'', ''complex''] \<and> 200 < length (str_split response_lower) then True
      else if str_in (ascii word) response_lower then True
      else False)"

definition expectation_matches :: "str \<Rightarrow> str \<Rightarrow> nat" where
  "expectation_matches prompt_lower response_lower =
     length (filter (\<lambda>word. str_in (ascii word) prompt_lower \<and> expectation_met word response_lower)
                    expectation_words)"

definition calculate_expectation_sync :: "unicode_data \<Rightarrow> str \<Rightarrow> str \<Rightarrow> real" where
  "calculate_expectation_sync ud user_prompt ai_response =
     (let prompt_lower = str_lower ud user_prompt;
          response_lower = str_lower ud ai_response;
          n = expectation_matches prompt_lower response_lower
      in if 0 < n then min (0.5 + real n * 0.2) 1.0 else 0.7)"

definition calculate_depth_sync :: "str \<Rightarrow> str \<Rightarrow> real" where
  "calculate_depth_sync user_prompt ai_response =
     (let prompt_words = length (str_split user_prompt);
          response_words = length (str_split ai_response);
          ideal_response = (if prompt_words < 10 then 50 else if prompt_words < 30 then 100 else 200 :: nat);
          ratio = (if 0 < ideal_response then real response_words / real ideal_response else 1.0)
      in if 0.7 \<le> ratio \<and> ratio \<le> 1.3 then 0.9
         else if 0.4 \<le> ratio \<and> ratio \<le> 1.6 then 0.7
         else 0.4)"

record sas_result =
  sas_score :: real
  style_sync :: real
  goal_sync :: real
  expectation_sync :: real
  depth_sync :: real

definition sas_weighted :: "real \<Rightarrow> real \<Rightarrow> real \<Rightarrow> real \<Rightarrow> real" where
  "sas_weighted st go ex de = st * 0.35 + go * 0.25 + ex * 0.20 + de * 0.20"

definition sas_analyze :: "unicode_data \<Rightarrow> str \<Rightarrow> str \<Rightarrow> sas_result" where
  "sas_analyze ud user_prompt ai_response =
     (let user_style = analyze_user_style ud user_prompt;
          ai_style = sas_analyze_ai_style ud ai_response;
          st = calculate_style_sync user_style ai_style;
          go = calculate_goal_sync ud user_prompt ai_response;
          ex = calculate_expectation_sync ud user_prompt ai_response;
          de = calculate_depth_sync user_prompt ai_response
      in \<lparr>sas_score = round3 (sas_weighted st go ex de),
          style_sync = st, goal_sync = go, expectation_sync = ex, depth_sync = de\<rparr>)"

section \<open>CPS: the level of cognitive progression (\<open>dimensions/cps.py\<close>)\<close>

text \<open>A turn of the conversation history, the dictionary \<open>app.py\<close> appends; the
  analyzer reads its level with \<open>turn.get('cps_level', 1)\<close>.\<close>

record turn =
  user_prompt :: str
  ai_response :: str
  cps_level :: "int option"

record level_data =
  level_num :: int
  user_keywords :: "string list"
  ai_keywords :: "string list"

definition levels :: "level_data list" where
  "levels =
     [\<lparr>level_num = 1,
       user_keywords = [''what is'', ''define'', ''explain'', ''tell me about'',
                        ''what does'', ''how does'', ''why is'', ''when should''],
       ai_keywords = [''definition'', ''explanation'', ''introduction'', ''overview'',
                      ''basic concept'', ''fundamental'', ''simple terms'']\<rparr>,
      \<lparr>level_num = 2,
       user_keywords = [''options'', ''examples'', ''compare'', ''different ways'',
                        ''alternatives'', ''possibilities'', ''what are some'',
                        ''show me'', ''give me examples''],
       ai_keywords = [''options include'', ''examples are'', ''compare and contrast'',
                      ''different approaches'', ''several ways'', ''alternatives'',
                      ''for instance'', ''such as'']\<rparr>,
      \<lparr>level_num = 3,
       user_keywords = [''how to'', ''apply'', ''steps'', ''implement'', ''process'',
                        ''method'', ''procedure'', ''guide'', ''tutorial'',
                        ''walk me through'', ''show me how''],
       ai_keywords = [''step by step'', ''first then'', ''process involves'',
                      ''implementation guide'', ''actionable steps'', ''methodology'',
                      ''to apply this'', ''practical approach'']\<rparr>,
      \<lparr>level_num = 4,
       user_keywords = [''let's'', ''we can'', ''we should'', ''build together'',
                        ''collaborate'', ''partner'', ''your input'', ''what do you think'',
                        ''our'', ''together'', ''jointly'', ''work with me''],
       ai_keywords = [''let's'', ''we can'', ''we should'', ''together we'',
                      ''collaboratively'', ''partnership'', ''your thoughts'',
                      ''what are your ideas'', ''how shall we'', ''shall we'']\<rparr>,
      \<lparr>level_num = 5,
       user_keywords = [''could also'', ''apply to'', ''broader use'', ''generalize'',
                        ''other applications'', ''beyond this'', ''what if'',
                        ''how else'', ''future implications'', ''long-term''],
       ai_keywords = [''broader implications'', ''can be applied to'', ''generalizes to'',
                      ''other contexts'', ''future applications'', ''extending this'',
                      ''similar principles'', ''across domains'']\<rparr>]"

text \<open>The inner loop of both detectors: how many keywords occur as whole words.\<close>

definition keyword_hits :: "unicode_data \<Rightarrow> string list \<Rightarrow> str \<Rightarrow> nat" where
  "keyword_hits ud keywords text_lower =
     length (filter (\<lambda>keyword. re_search ud no_flags (whole_word keyword) text_lower) keywords)"

definition user_level_scores :: "unicode_data \<Rightarrow> str \<Rightarrow> (int \<times> real) list" where
  "user_level_scores ud prompt =
     (let prompt_lower = str_lower ud prompt
      in map (\<lambda>d. (level_num d,
                    real (keyword_hits ud (user_keywords d) prompt_lower)
                      * (1 + (real_of_int (level_num d) * 0.1))))
             levels)"

definition detect_user_level :: "unicode_data \<Rightarrow> str \<Rightarrow> int" where
  "detect_user_level ud prompt =
     (case max_by snd (user_level_scores ud prompt) of
        Some best \<Rightarrow> fst best
      | None \<Rightarrow> 1)"

definition ai_level_scores :: "unicode_data \<Rightarrow> str \<Rightarrow> (int \<times> real) list" where
  "ai_level_scores ud response =
     (let response_lower = str_lower ud response
      in map (\<lambda>d. (level_num d, real (keyword_hits ud (ai_keywords d) response_lower))) levels)"

definition detect_ai_level :: "unicode_data \<Rightarrow> str \<Rightarrow> int" where
  "detect_ai_level ud response =
     (case max_by snd (ai_level_scores ud response) of
        Some best \<Rightarrow> fst best
      | None \<Rightarrow> 2)"

definition previous_levels :: "turn list \<Rightarrow> int list" where
  "previous_levels history =
     map (\<lambda>turn. case cps_level turn of Some l \<Rightarrow> l | None \<Rightarrow> 1) (last_n 3 history)"

text \<open>\<open>max(xs)\<close> of a non-empty list of levels.\<close>

definition max_level :: "int list \<Rightarrow> int" where
  "max_level xs = (case xs of [] \<Rightarrow> 0 | x # ys \<Rightarrow> foldr max ys x)"

definition determine_achieved_level :: "int \<Rightarrow> int \<Rightarrow> turn list \<Rightarrow> int" where
  "determine_achieved_level user_level ai_level history =
     (let base_level0 = max user_level ai_level;
          base_level = (if history \<noteq> [] \<and> max_level (previous_levels history) < base_level0
                        then min (base_level0 + 1) 5
                        else base_level0);
          achieved_level = max base_level user_level
      in min achieved_level 5)"

record cps_result =
  cps_score :: real
  achieved_level :: int
  user_detected_level :: int
  ai_detected_level :: int

definition cps_analyze :: "unicode_data \<Rightarrow> str \<Rightarrow> str \<Rightarrow> turn list \<Rightarrow> cps_result" where
  "cps_analyze ud prompt response conversation_history =
     (let user_level = detect_user_level ud prompt;
          ai_level = detect_ai_level ud response;
          achieved = determine_achieved_level user_level ai_level conversation_history;
          score = real_of_int achieved / 5.0
      in \<lparr>cps_score = round3 score, achieved_level = achieved,
          user_detected_level = user_level, ai_detected_level = ai_level\<rparr>)"

section \<open>CSS: the level of cognitive safety (\<open>dimensions/css.py\<close>)\<close>

definition positive_signals :: "string list" where
  "positive_signals =
     [''does this make sense'', ''please clarify'', ''let me know'',
      ''your thoughts'', ''what do you think'', ''feel free to ask'',
      ''i want to ensure'', ''correct me if I'm wrong'', ''am I understanding'',
      ''we can adjust'', ''your feedback'', ''how does that sound'',
      ''comfortable with'', ''happy to explain'', ''take your time'']"

definition negative_signals :: "string list" where
  "negative_signals =
     [''obviously'', ''clearly'', ''everyone knows'',
      ''you should know'', ''basic knowledge'', ''simple concept'',
      ''easy to understand'', ''no excuse for not knowing'',
      ''if you can't understand this'', ''even a child could'']"

definition collaborative_language :: "string list" where
  "collaborative_language =
     [''let's'', ''we can'', ''we should'', ''our'', ''together'',
      ''collaborate'', ''partner'', ''jointly'', ''build with'',
      ''work together'', ''team effort'']"

definition empowerment_signals :: "string list" where
  "empowerment_signals =
     [''you can'', ''you have the ability'', ''your expertise'',
      ''build on your knowledge'', ''apply this to'', ''generalize'',
      ''expand this concept'', ''future applications'']"

text \<open>The signals are patterns without any special character: each is searched as it
  is written, in the lowercased response.\<close>

definition signal_count :: "unicode_data \<Rightarrow> string list \<Rightarrow> str \<Rightarrow> nat" where
  "signal_count ud patterns text_lower =
     length (filter (\<lambda>pattern. re_search ud no_flags (lit pattern) text_lower) patterns)"

definition analyze_ai_safety :: "unicode_data \<Rightarrow> str \<Rightarrow> real" where
  "analyze_ai_safety ud response =
     (let response_lower = str_lower ud response;
          positive_count = signal_count ud positive_signals response_lower;
          collaborative_count = signal_count ud collaborative_language response_lower;
          empowerment_count = signal_count ud empowerment_signals response_lower;
          negative_count = signal_count ud negative_signals response_lower;
          safety_score = 0.5 + (real positive_count * 0.1) + (real collaborative_count * 0.08)
                         + (real empowerment_count * 0.07) - (real negative_count * 0.15)
      in max 0.0 (min safety_score 1.0))"

definition comfortable_signals :: "string list" where
  "comfortable_signals =
     [''confident'', ''comfortable'', ''clear'', ''understand'',
      ''excited'', ''interested'', ''curious'', ''ready'']"

definition uncomfortable_signals :: "string list" where
  "uncomfortable_signals =
     [''confused'', ''frustrated'', ''overwhelmed'', ''lost'',
      ''complicated'', ''difficult'', ''hard'', ''struggling'']"

definition analyze_user_comfort :: "unicode_data \<Rightarrow> str \<Rightarrow> real" where
  "analyze_user_comfort ud prompt =
     (let prompt_lower = str_lower ud prompt;
          comfortable_count = count_present comfortable_signals prompt_lower;
          uncomfortable_count = count_present uncomfortable_signals prompt_lower;
          comfort_score = 0.5 + (real comfortable_count * 0.1) - (real uncomfortable_count * 0.15)
      in max 0.0 (min comfort_score 1.0))"

record interaction_data =
  response_length :: nat
  user_prompt_length :: nat
  has_ai_response :: bool

definition analyze_context :: "interaction_data \<Rightarrow> real" where
  "analyze_context d =
     (let context_score =
            (if 0 < user_prompt_length d \<and> 0 < response_length d
             then (let ratio = real (response_length d) / real (user_prompt_length d)
                   in if 5 < ratio then 0.7 - 0.2
                      else if ratio < 0.5 then 0.7 + 0.1
                      else 0.7)
             else 0.7)
      in max 0.0 (min context_score 1.0))"

definition determine_css_level :: "real \<Rightarrow> real \<Rightarrow> real \<Rightarrow> int" where
  "determine_css_level ai_safety user_comfort context_score =
     (let combined_score = ai_safety * 0.6 + user_comfort * 0.3 + context_score * 0.1
      in if 0.8 \<le> combined_score then 5
         else if 0.7 \<le> combined_score then 4
         else if 0.6 \<le> combined_score then 3
         else if 0.4 \<le> combined_score then 2
         else 1)"

record css_result =
  css_score :: real
  css_level :: int
  ai_safety_score :: real
  user_comfort_level :: real
  context_score :: real

definition css_analyze :: "unicode_data \<Rightarrow> str \<Rightarrow> str \<Rightarrow> interaction_data \<Rightarrow> css_result" where
  "css_analyze ud prompt response d =
     (let ai_safety = analyze_ai_safety ud response;
          user_comfort = analyze_user_comfort ud prompt;
          ctx = analyze_context d;
          level = determine_css_level ai_safety user_comfort ctx;
          score = real_of_int level / 5.0
      in \<lparr>css_score = round3 score, css_level = level, ai_safety_score = ai_safety,
          user_comfort_level = user_comfort, context_score = ctx\<rparr>)"

section \<open>AM: the alignment modulator (\<open>dimensions/am.py\<close>)\<close>

datatype uip = precision_seeker | strategic_explorer | co_creation_partner

definition uip_order :: "uip list" where
  "uip_order = [precision_seeker, strategic_explorer, co_creation_partner]"

definition uip_keywords :: "uip \<Rightarrow> string list" where
  "uip_keywords u =
     (case u of
        precision_seeker \<Rightarrow>
          [''exact'', ''define'', ''list'', ''specifically'', ''no fluff'', ''correct'', ''only'', ''step-by-step'']
      | strategic_explorer \<Rightarrow>
          [''framework'', ''model'', ''system'', ''big picture'', ''how does this fit'', ''map'', ''concept'']
      | co_creation_partner \<Rightarrow>
          [''let's'', ''build'', ''together'', ''collaborate'', ''your input'', ''what do you think''])"

definition preferred_response_style :: "uip \<Rightarrow> string list" where
  "preferred_response_style u =
     (case u of
        precision_seeker \<Rightarrow> [''concise'', ''structured'', ''bounded'', ''bullet points'']
      | strategic_explorer \<Rightarrow> [''framework'', ''analogy'', ''structured'', ''overview'']
      | co_creation_partner \<Rightarrow> [''interactive'', ''iterative'', ''suggestive'', ''questioning''])"

text \<open>A response style: its \<open>max_words\<close>, when it has one, and its patterns, when it
  has any (\<open>concise\<close> has no \<open>patterns\<close> entry, the others no \<open>max_words\<close>).\<close>

record style_data =
  style_name :: string
  max_words :: "nat option"
  patterns :: "rx list option"

definition response_styles :: "style_data list" where
  "response_styles =
     [\<lparr>style_name = ''concise'', max_words = Some 150, patterns = None\<rparr>,
      \<lparr>style_name = ''structured'', max_words = None,
       patterns = Some [seqs [newline, plus Digit, Lit (CHR ''.'')], seqs [newline, lit ''- ''],
                        lit ''first'', lit ''next'', lit ''finally'']\<rparr>,
      \<lparr>style_name = ''interactive'', max_words = None,
       patterns = Some [Lit (CHR ''?''), lit ''your input'', lit ''collaborate'']\<rparr>,
      \<lparr>style_name = ''framework'', max_words = None,
       patterns = Some [lit ''like a'', lit ''similar to'', lit ''framework'', lit ''model'']\<rparr>]"

fun detect_uip_from :: "unicode_data \<Rightarrow> str \<Rightarrow> uip \<times> nat \<Rightarrow> uip list \<Rightarrow> uip \<times> nat" where
  "detect_uip_from ud prompt_lower best [] = best"
| "detect_uip_from ud prompt_lower best (uip_name # rest) =
     (let score = keyword_hits ud (uip_keywords uip_name) prompt_lower
      in detect_uip_from ud prompt_lower (if snd best < score then (uip_name, score) else best) rest)"

definition detect_uip :: "unicode_data \<Rightarrow> str \<Rightarrow> uip \<times> real" where
  "detect_uip ud prompt =
     (let (best_uip, best_score) = detect_uip_from ud (str_lower ud prompt) (precision_seeker, 0) uip_order;
          confidence = min (real best_score / 3.0) 1.0
      in (best_uip, confidence))"

definition style_score :: "unicode_data \<Rightarrow> str \<Rightarrow> style_data \<Rightarrow> real" where
  "style_score ud response sd =
     (let response_lower = str_lower ud response;
          score1 = (if style_name sd = ''concise''
                    then (case max_words sd of
                            Some m \<Rightarrow> if length (str_split response) \<le> m then 0.5 else 0.0
                          | None \<Rightarrow> 0.0)
                    else 0.0);
          score2 = (case patterns sd of
                      Some ps \<Rightarrow> score1 + 0.3 * real (length (filter (\<lambda>pattern. re_search ud no_flags pattern response_lower) ps))
                    | None \<Rightarrow> score1)
      in min score2 1.0)"

definition am_analyze_ai_style :: "unicode_data \<Rightarrow> str \<Rightarrow> (string \<times> real) list" where
  "am_analyze_ai_style ud response = map (\<lambda>sd. (style_name sd, style_score ud response sd)) response_styles"

text \<open>\<open>ai_style.get(name, 0.0)\<close>\<close>

definition style_get :: "(string \<times> real) list \<Rightarrow> string \<Rightarrow> real" where
  "style_get ai_style name = (case map_of ai_style name of Some v \<Rightarrow> v | None \<Rightarrow> 0.0)"

definition style_match_score :: "uip \<Rightarrow> (string \<times> real) list \<Rightarrow> real" where
  "style_match_score detected_uip ai_style =
     (let preferred_styles = preferred_response_style detected_uip;
          total = sum_list (map (style_get ai_style) preferred_styles)
      in min (total / real (length preferred_styles)) 1.0)"

definition calculate_am :: "uip \<Rightarrow> (string \<times> real) list \<Rightarrow> str \<Rightarrow> real" where
  "calculate_am detected_uip ai_style response =
     (let m = style_match_score detected_uip ai_style;
          am1 = (if 0.8 \<le> m then 1.2
                 else if 0.6 \<le> m then 1.1
                 else if 0.4 \<le> m then 1.0
                 else if 0.2 \<le> m then 0.9
                 else 0.8);
          n_words = length (str_split response);
          am2 = (if detected_uip = precision_seeker \<and> 300 < n_words then am1 - 0.1 else am1);
          am3 = (if detected_uip = co_creation_partner \<and> 0.5 < style_get ai_style ''interactive''
                 then am2 + 0.1 else am2)
      in max 0.8 (min am3 1.2))"

record am_result =
  am_score :: real
  detected :: uip
  confidence :: real
  ai_response_style :: "(string \<times> real) list"

definition am_analyze :: "unicode_data \<Rightarrow> str \<Rightarrow> str \<Rightarrow> am_result" where
  "am_analyze ud prompt response =
     (let (detected_uip, uip_confidence) = detect_uip ud prompt;
          ai_style = am_analyze_ai_style ud response;
          am = calculate_am detected_uip ai_style response
      in \<lparr>am_score = round3 am, detected = detected_uip, confidence = uip_confidence,
          ai_response_style = ai_style\<rparr>)"

section \<open>The aggregator (\<open>analyze_interaction\<close> of \<open>app.py\<close>)\<close>

text \<open>
  The request carries the two texts (a request whose fields are not texts fails in the
  first analyzer, before anything is stored); the conversation history is the one piece
  of state, passed in and returned. The local variables the handler holds before it computes the
  index (lines 50 to 125) are the record \<open>scores\<close>; the reply it builds from them (lines
  137 to 174) is the record \<open>response_data\<close>, without its strings and its time stamp.
\<close>

record scores =
  iai :: real
  cai :: real
  pas :: real
  sas :: real
  cps :: real
  css :: real
  am :: real
  uip_detected :: uip
  uip_confidence :: real

record response_data =
  resonance_index :: real
  alignment_modulator :: real
  user_intent_pattern :: "uip \<times> real"
  dim_iai :: real
  dim_cai :: real
  dim_pas :: real
  dim_sas :: real
  dim_cps :: real
  dim_css :: real

datatype error = Prompt_required

text \<open>The turn appended after an exchange with a response, and the cut to the last ten.\<close>

definition remember :: "turn list \<Rightarrow> str \<Rightarrow> str \<Rightarrow> int \<Rightarrow> turn list" where
  "remember conversation_history prompt response level =
     last_n 10 (conversation_history
                @ [\<lparr>user_prompt = prompt, ai_response = response, cps_level = Some level\<rparr>])"

definition run_analyzers :: "unicode_data \<Rightarrow> turn list \<Rightarrow> str \<Rightarrow> str \<Rightarrow> scores \<times> turn list" where
  "run_analyzers ud conversation_history prompt response =
     (let iai_result = iai_analyze ud prompt;
          cai_score' = (if response \<noteq> [] then cai_score (cai_analyze ud response) else 0.0);
          pas_score' = (if response \<noteq> [] then pas_score (pas_analyze ud response) else 0.0);
          sas_score' = (if response \<noteq> [] \<and> prompt \<noteq> []
                        then sas_score (sas_analyze ud prompt response) else 0.5);
          (cps_score', history') =
            (if response \<noteq> [] \<and> prompt \<noteq> []
             then (let cps_result = cps_analyze ud prompt response conversation_history
                   in (cps_score cps_result,
                       remember conversation_history prompt response (achieved_level cps_result)))
             else (0.5, conversation_history));
          css_score' =
            (if response \<noteq> [] \<and> prompt \<noteq> []
             then (let d = \<lparr>response_length = length (str_split response),
                                user_prompt_length = length (str_split prompt),
                                has_ai_response = (str_strip response \<noteq> [])\<rparr>
                   in css_score (css_analyze ud prompt response d))
             else 0.5);
          (am_score', uip_detected', uip_confidence') =
            (if response \<noteq> [] \<and> prompt \<noteq> []
             then (let am_result = am_analyze ud prompt response
                   in (am_score am_result, detected am_result, confidence am_result))
             else (1.0, precision_seeker, 0.5))
      in (\<lparr>iai = iai_score iai_result, cai = cai_score', pas = pas_score', sas = sas_score',
           cps = cps_score', css = css_score', am = am_score',
           uip_detected = uip_detected', uip_confidence = uip_confidence'\<rparr>,
          history'))"

text \<open>Lines 128 to 135.\<close>

definition ri_score :: "scores \<Rightarrow> real" where
  "ri_score s =
     (iai s * 0.25 + cai s * 0.20 + pas s * 0.20 + sas s * 0.15 + cps s * 0.10 + css s * 0.10) * am s"

definition build_response :: "scores \<Rightarrow> response_data" where
  "build_response s =
     \<lparr>resonance_index = round3 (ri_score s),
      alignment_modulator = am s,
      user_intent_pattern = (uip_detected s, round3 (uip_confidence s)),
      dim_iai = round3 (iai s),
      dim_cai = round3 (cai s),
      dim_pas = round3 (pas s),
      dim_sas = round3 (sas s),
      dim_cps = round3 (cps s),
      dim_css = round3 (css s)\<rparr>"

definition analyze_interaction :: "unicode_data \<Rightarrow> turn list \<Rightarrow> str \<Rightarrow> str \<Rightarrow> (error + response_data) \<times> turn list" where
  "analyze_interaction ud conversation_history prompt response =
     (if prompt = [] then (Inl Prompt_required, conversation_history)
      else let (s, history') = run_analyzers ud conversation_history prompt response
           in (Inr (build_response s), history'))"

text \<open>A session: the requests served one after the other on the shared history.\<close>

fun serve :: "unicode_data \<Rightarrow> turn list \<Rightarrow> (str \<times> str) list \<Rightarrow> turn list" where
  "serve ud h [] = h"
| "serve ud h ((prompt, response) # rest) = serve ud (snd (analyze_interaction ud h prompt response)) rest"


section \<open>Notions the properties are stated with\<close>

text \<open>The ranges of the scores: [0, 1] for a dimension, [0.8, 1.2] for the multiplier.\<close>

definition in_unit :: "real \<Rightarrow> bool" where
  "in_unit x = (0 \<le> x \<and> x \<le> 1)"

definition scores_in_range :: "scores \<Rightarrow> bool" where
  "scores_in_range s =
     (in_unit (iai s) \<and> in_unit (cai s) \<and> in_unit (pas s) \<and> in_unit (sas s)
      \<and> in_unit (cps s) \<and> in_unit (css s) \<and> 0.8 \<le> am s \<and> am s \<le> 1.2)"

text \<open>A style dictionary whose values all lie in [0, 1].\<close>

definition unit_valued :: "(string \<times> real) list \<Rightarrow> bool" where
  "unit_valued d = list_all (\<lambda>kv. 0 \<le> snd kv \<and> snd kv \<le> 1) d"

text \<open>
  The reference for the history window: the log of every complete exchange, never cut,
  each turn with the level the analyzer gives it on the log so far.
\<close>

fun full_log :: "unicode_data \<Rightarrow> turn list \<Rightarrow> (str \<times> str) list \<Rightarrow> turn list" where
  "full_log ud H [] = H"
| "full_log ud H ((prompt, response) # rest) =
     full_log ud (if prompt \<noteq> [] \<and> response \<noteq> []
               then H @ [\<lparr>user_prompt = prompt, ai_response = response,
                           cps_level = Some (achieved_level (cps_analyze ud prompt response H))\<rparr>]
               else H) rest"

text \<open>The texts of a turn, and the requests that carry both a prompt and a response.\<close>

definition exchange_of :: "turn \<Rightarrow> str \<times> str" where
  "exchange_of t = (user_prompt t, ai_response t)"

definition has_both :: "str \<times> str \<Rightarrow> bool" where
  "has_both e = (fst e \<noteq> [] \<and> snd e \<noteq> [])"

text \<open>The preferred style names that \<open>response_styles\<close> has no entry for.\<close>

definition missing_styles :: "string list" where
  "missing_styles = [''bounded'', ''bullet points'', ''analogy'', ''overview'', ''iterative'',
                     ''suggestive'', ''questioning'']"


text \<open>
  The exchanges the properties are evaluated on: the scenario of the specification (the
  prompt \<open>What is a for-loop?\<close> alone), a two-word exchange, two prompts of 22 and 23 words,
  turns for a history, and a session of eleven complete exchanges.
\<close>

definition for_loop :: "str" where
  "for_loop = ascii ''What is a for-loop?''"


definition hi_ok_scores :: scores where
  "hi_ok_scores = \<lparr>iai = 0.13, cai = 0, pas = 0.025, sas = 0.605, cps = 0.2, css = 0.4, am = 0.8,
                    uip_detected = precision_seeker, uip_confidence = 0\<rparr>"

definition hi_ok_reply :: response_data where
  "hi_ok_reply = \<lparr>resonance_index = 0.151, alignment_modulator = 0.8,
                   user_intent_pattern = (precision_seeker, 0), dim_iai = 0.13, dim_cai = 0,
                   dim_pas = 0.025, dim_sas = 0.605, dim_cps = 0.2, dim_css = 0.4\<rparr>"

definition hi_ok_turn :: turn where
  "hi_ok_turn = \<lparr>user_prompt = ascii ''hi'', ai_response = ascii ''ok'', cps_level = Some 1\<rparr>"





definition level_2_turn :: turn where
  "level_2_turn = \<lparr>user_prompt = ascii ''show me options'', ai_response = ascii ''such as these'',
                    cps_level = Some 2\<rparr>"

definition eleven :: "(str \<times> str) list" where
  "eleven = map (\<lambda>(q, a). (ascii q, ascii a))
              [(''q1'', ''a1''), (''q2'', ''a2''), (''q3'', ''a3''), (''q4'', ''a4''), (''q5'', ''a5''),
               (''q6'', ''a6''), (''q7'', ''a7''), (''q8'', ''a8''), (''q9'', ''a9''), (''q10'', ''a10''),
               (''q11'', ''a11'')]"

text \<open>
  The step function of the CAI score as the specification words it: 0 anchors give 0.0,
  1 gives 0.25, 2 give 0.5, 3 give 0.75, 4 or more give 1.0.
\<close>

definition step_function :: "nat \<Rightarrow> real" where
  "step_function n =
     (if n = 0 then 0.0 else if n = 1 then 0.25 else if n = 2 then 0.5 else if n = 3 then 0.75
      else 1.0)"

text \<open>
  Responses with anchors: one analogy; two boundaries (two patterns match the same words);
  three and five anchors over the three families; a banned vague term; and a hypothesis
  whose only word after \<open>suppose\<close> is a no-break space, U+00A0.
\<close>

definition river :: str where
  "river = ascii ''like a river''"

definition cats :: str where
  "cats = ascii ''This is not about cats!''"

definition three_anchors :: str where
  "three_anchors = ascii ''Like a river. Akin to rain. Suppose we go''"

definition five_anchors :: str where
  "five_anchors = ascii ''Like a river. Akin to rain. Suppose we go. Instead of tea. As if by magic''"

definition vague :: str where
  "vague = ascii ''something like this thing''"

definition no_break :: str where
  "no_break = ascii ''suppose '' @ [0xA0] @ ascii '', x''"

text \<open>
  Tables for a text whose characters beyond ASCII are neither letters nor digits, such as
  the no-break space: \<open>lower()\<close> leaves such a character as it is.
\<close>

definition plain_tables :: unicode_data where
  "plain_tables = \<lparr>lower_at = (\<lambda>s i. [s ! i]), isalnum = (\<lambda>c. False), isdecimal = (\<lambda>c. False),
                    caseless = (\<lambda>p c. False), caseless_in = (\<lambda>rs c. False)\<rparr>"

text \<open>An exchange of the intent \<open>co_creation_partner\<close> whose response has every interactive pattern.\<close>

definition build_together :: str where
  "build_together = ascii ''build together''"

definition your_input :: str where
  "your_input = ascii ''collaborate? your input''"

section \<open>Auxiliary facts\<close>

lemma ascii_eq_Nil [simp]: "ascii cs = [] \<longleftrightarrow> cs = []"
  by (simp add: ascii_def)

lemma round_half_even_of_int: "round_half_even (of_int n) = n"
  by (simp add: round_half_even_def)

lemma round_half_even_cases:
  "round_half_even y = \<lfloor>y\<rfloor> \<or> (round_half_even y = \<lfloor>y\<rfloor> + 1 \<and> 1 / 2 \<le> y - of_int \<lfloor>y\<rfloor>)"
  by (auto simp: round_half_even_def Let_def)

lemma round_half_even_low:
  "y - of_int \<lfloor>y\<rfloor> < 1 / 2 \<Longrightarrow> round_half_even y = \<lfloor>y\<rfloor>"
  by (simp add: round_half_even_def Let_def)

lemma round_half_even_high:
  "1 / 2 < y - of_int \<lfloor>y\<rfloor> \<Longrightarrow> round_half_even y = \<lfloor>y\<rfloor> + 1"
  by (simp add: round_half_even_def Let_def)

lemma round_half_even_mono:
  assumes "x \<le> y"
  shows "round_half_even x \<le> round_half_even y"
proof -
  have fl: "\<lfloor>x\<rfloor> \<le> \<lfloor>y\<rfloor>" using assms by (rule floor_mono)
  have lo: "\<lfloor>y\<rfloor> \<le> round_half_even y" using round_half_even_cases [of y] by auto
  have hi: "round_half_even x \<le> \<lfloor>x\<rfloor> + 1" using round_half_even_cases [of x] by auto
  show ?thesis
  proof (cases "\<lfloor>x\<rfloor> < \<lfloor>y\<rfloor>")
    case True
    with lo hi show ?thesis by linarith
  next
    case False
    with fl have eq: "\<lfloor>x\<rfloor> = \<lfloor>y\<rfloor>" by simp
    then have d: "x - of_int \<lfloor>x\<rfloor> \<le> y - of_int \<lfloor>y\<rfloor>" using assms by simp
    show ?thesis
    proof (cases "x - of_int \<lfloor>x\<rfloor> < 1 / 2")
      case True
      then have "round_half_even x = \<lfloor>x\<rfloor>" by (rule round_half_even_low)
      with lo eq show ?thesis by simp
    next
      case xh: False
      show ?thesis
      proof (cases "1 / 2 < y - of_int \<lfloor>y\<rfloor>")
        case True
        then have "round_half_even y = \<lfloor>y\<rfloor> + 1" by (rule round_half_even_high)
        with hi eq show ?thesis by simp
      next
        case False
        with xh d have "x - of_int \<lfloor>x\<rfloor> = y - of_int \<lfloor>y\<rfloor>" by linarith
        with eq have "x = y" by simp
        then show ?thesis by simp
      qed
    qed
  qed
qed

lemma round3_mono: "x \<le> y \<Longrightarrow> round3 x \<le> round3 y"
  unfolding round3_def
  by (intro divide_right_mono iffD2 [OF of_int_le_iff] round_half_even_mono) simp_all

lemma round3_fixed: "round3 (of_int k / 1000) = of_int k / 1000"
  by (simp add: round3_def round_half_even_of_int)

lemma round3_numerals:
  "round3 0 = 0" "round3 1 = 1" "round3 0.5 = 0.5" "round3 0.8 = 0.8" "round3 1.2 = 1.2"
  using round3_fixed [of 0] round3_fixed [of 1000] round3_fixed [of 500]
    round3_fixed [of 800] round3_fixed [of 1200]
  by simp_all

lemma round3_between:
  assumes "of_int a / 1000 \<le> x" "x \<le> of_int b / 1000"
  shows "of_int a / 1000 \<le> round3 x \<and> round3 x \<le> of_int b / 1000"
  using round3_mono [OF assms(1)] round3_mono [OF assms(2)] by (simp add: round3_fixed)

lemma round3_unit: "0 \<le> x \<Longrightarrow> x \<le> 1 \<Longrightarrow> 0 \<le> round3 x \<and> round3 x \<le> 1"
  using round3_between [of 0 x 1000] by simp

lemma score_context_completeness_unit:
  "0 \<le> score_context_completeness ud p \<and> score_context_completeness ud p \<le> 1"
  by (simp add: score_context_completeness_def Let_def)

lemma score_specificity_unit: "0 \<le> score_specificity ud p w \<and> score_specificity ud p w \<le> 1"
  by (simp add: score_specificity_def Let_def)

lemma score_language_quality_unit:
  "0 \<le> score_language_quality p s w \<and> score_language_quality p s w \<le> 1"
  by (simp add: score_language_quality_def Let_def)

lemma score_structure_unit: "0 \<le> score_structure ud p \<and> score_structure ud p \<le> 1"
  by (simp add: score_structure_def Let_def min_def)

lemma score_sufficiency_unit: "0 \<le> score_sufficiency w \<and> score_sufficiency w \<le> 1"
  by (simp add: score_sufficiency_def optimal_min_def optimal_max_def field_simps)

lemma score_tone_unit: "0 \<le> score_tone ud p \<and> score_tone ud p \<le> 1"
  by (simp add: score_tone_def Let_def min_def)

lemma iai_weighted_nonneg:
  assumes "0 \<le> context_completeness c" "0 \<le> specificity_level c" "0 \<le> language_quality c"
    "0 \<le> structure_quality c" "0 \<le> information_sufficiency c" "0 \<le> tone_sentiment c"
  shows "0 \<le> iai_weighted c"
  using assms by (simp add: iai_weighted_def)

lemma iai_score_unit: "0 \<le> iai_score (iai_analyze ud p) \<and> iai_score (iai_analyze ud p) \<le> 1"
proof -
  have "0 \<le> iai_weighted (components (iai_analyze ud p))"
    by (rule iai_weighted_nonneg)
       (simp_all add: iai_analyze_def Let_def score_context_completeness_unit
          score_specificity_unit score_language_quality_unit score_structure_unit
          score_sufficiency_unit score_tone_unit)
  moreover have "iai_score (iai_analyze ud p) = min (iai_weighted (components (iai_analyze ud p))) 1"
    by (simp add: iai_analyze_def Let_def)
  ultimately show ?thesis by simp
qed

lemma cai_score_ladder:
  "cai_score (cai_analyze ud t) \<in> {0, 0.25, 0.5, 0.75, 1}"
  by (simp add: cai_analyze_def Let_def)

lemma cai_score_unit: "0 \<le> cai_score (cai_analyze ud t) \<and> cai_score (cai_analyze ud t) \<le> 1"
  by (simp add: cai_analyze_def Let_def)

lemma analyze_chunking_unit: "0 \<le> analyze_chunking ud t \<and> analyze_chunking ud t \<le> 1"
  by (simp add: analyze_chunking_def Let_def add_nonneg_nonneg)

lemma analyze_structure_unit: "0 \<le> analyze_structure ud t \<and> analyze_structure ud t \<le> 1"
  by (simp add: analyze_structure_def Let_def)

lemma analyze_collaboration_unit: "0 \<le> analyze_collaboration ud t \<and> analyze_collaboration ud t \<le> 1"
  by (simp add: analyze_collaboration_def Let_def)

lemma analyze_rhythm_unit: "0 \<le> analyze_rhythm ud t \<and> analyze_rhythm ud t \<le> 1"
  by (simp add: analyze_rhythm_def Let_def add_nonneg_nonneg)

lemma weighted4_unit:
  fixes a b c d :: real
  assumes "0 \<le> a \<and> a \<le> 1" "0 \<le> b \<and> b \<le> 1" "0 \<le> c \<and> c \<le> 1" "0 \<le> d \<and> d \<le> 1"
  shows "0 \<le> pas_weighted a b c d \<and> pas_weighted a b c d \<le> 1"
    and "0 \<le> sas_weighted a b c d \<and> sas_weighted a b c d \<le> 1"
  using assms by (simp_all add: pas_weighted_def sas_weighted_def)

lemma pas_score_unit: "0 \<le> pas_score (pas_analyze ud r) \<and> pas_score (pas_analyze ud r) \<le> 1"
proof -
  have "pas_score (pas_analyze ud r) =
      round3 (pas_weighted (analyze_chunking ud r) (analyze_structure ud r) (analyze_collaboration ud r) (analyze_rhythm ud r))"
    by (simp add: pas_analyze_def Let_def)
  moreover have "0 \<le> pas_weighted (analyze_chunking ud r) (analyze_structure ud r) (analyze_collaboration ud r) (analyze_rhythm ud r)
     \<and> pas_weighted (analyze_chunking ud r) (analyze_structure ud r) (analyze_collaboration ud r) (analyze_rhythm ud r) \<le> 1"
    by (rule weighted4_unit(1) [OF analyze_chunking_unit analyze_structure_unit
          analyze_collaboration_unit analyze_rhythm_unit])
  ultimately show ?thesis using round3_unit by simp
qed

lemma style_of_unit: "unit_valued d \<Longrightarrow> 0 \<le> style_of d k \<and> style_of d k \<le> 1"
  by (induction d) (auto simp: unit_valued_def style_of_def)

lemma analyze_user_style_unit: "unit_valued (analyze_user_style ud p)"
proof -
  have "0 \<le> sum_list (map (\<lambda>pattern. real (re_count ud f pattern t) * 0.1) ps)" for f t ps
    by (rule sum_list_nonneg) auto
  then show ?thesis
    by (simp add: unit_valued_def analyze_user_style_def Let_def list_all_iff split_beta)
qed

lemma similarity_nonneg:
  assumes "unit_valued u" "unit_valued a"
  shows "0 \<le> sum_list (map (\<lambda>(style, v). (1.0 - \<bar>v - style_of a style\<bar>) * 0.2) u)"
proof (rule sum_list_nonneg)
  fix x assume "x \<in> set (map (\<lambda>(style, v). (1.0 - \<bar>v - style_of a style\<bar>) * 0.2) u)"
  then obtain k v where kv: "(k, v) \<in> set u" and x: "x = (1.0 - \<bar>v - style_of a k\<bar>) * 0.2"
    by auto
  from kv assms(1) have "0 \<le> v \<and> v \<le> 1" by (auto simp: unit_valued_def list_all_iff)
  moreover have "0 \<le> style_of a k \<and> style_of a k \<le> 1" using assms(2) by (rule style_of_unit)
  ultimately have "\<bar>v - style_of a k\<bar> \<le> 1" by linarith
  with x show "0 \<le> x" by simp
qed

lemma calculate_style_sync_unit:
  assumes "unit_valued u" "unit_valued a"
  shows "0 \<le> calculate_style_sync u a \<and> calculate_style_sync u a \<le> 1"
  using similarity_nonneg [OF assms]
  by (auto simp: calculate_style_sync_def Let_def split: option.splits)

lemma calculate_goal_sync_unit: "0 \<le> calculate_goal_sync ud p r \<and> calculate_goal_sync ud p r \<le> 1"
  by (simp add: calculate_goal_sync_def Let_def)

lemma calculate_expectation_sync_unit:
  "0 \<le> calculate_expectation_sync ud p r \<and> calculate_expectation_sync ud p r \<le> 1"
  by (simp add: calculate_expectation_sync_def Let_def)

lemma calculate_depth_sync_unit: "0 \<le> calculate_depth_sync p r \<and> calculate_depth_sync p r \<le> 1"
  by (simp add: calculate_depth_sync_def Let_def)

lemma sas_score_unit: "0 \<le> sas_score (sas_analyze ud p r) \<and> sas_score (sas_analyze ud p r) \<le> 1"
proof -
  let ?st = "calculate_style_sync (analyze_user_style ud p) (sas_analyze_ai_style ud r)"
  let ?w = "sas_weighted ?st (calculate_goal_sync ud p r) (calculate_expectation_sync ud p r) (calculate_depth_sync p r)"
  have st: "0 \<le> ?st \<and> ?st \<le> 1"
    by (rule calculate_style_sync_unit) (simp_all add: sas_analyze_ai_style_def analyze_user_style_unit)
  have "sas_score (sas_analyze ud p r) = round3 ?w"
    by (simp add: sas_analyze_def Let_def)
  moreover have "0 \<le> ?w \<and> ?w \<le> 1"
    by (rule weighted4_unit(2) [OF st calculate_goal_sync_unit calculate_expectation_sync_unit
          calculate_depth_sync_unit])
  ultimately show ?thesis using round3_unit by simp
qed

lemma max_by_from_mem: "max_by_from key b xs \<in> set (b # xs)"
  by (induction xs arbitrary: b) auto

lemma max_by_mem: "max_by key xs = Some b \<Longrightarrow> b \<in> set xs"
  using max_by_from_mem [of key] by (cases xs) auto

lemma level_nums: "map level_num levels = [1, 2, 3, 4, 5]"
  by (simp add: levels_def)

lemma user_level_scores_keys: "map fst (user_level_scores ud p) = [1, 2, 3, 4, 5]"
  using level_nums by (simp add: user_level_scores_def Let_def comp_def)

lemma ai_level_scores_keys: "map fst (ai_level_scores ud r) = [1, 2, 3, 4, 5]"
  using level_nums by (simp add: ai_level_scores_def Let_def comp_def)

lemma detect_user_level_range: "detect_user_level ud p \<in> {1, 2, 3, 4, 5}"
proof (cases "max_by snd (user_level_scores ud p)")
  case None
  then show ?thesis by (simp add: detect_user_level_def)
next
  case (Some b)
  then have "fst b \<in> set (map fst (user_level_scores ud p))"
    using max_by_mem [of snd "user_level_scores ud p" b] by simp
  with Some show ?thesis by (simp add: detect_user_level_def user_level_scores_keys)
qed

lemma detect_ai_level_range: "detect_ai_level ud r \<in> {1, 2, 3, 4, 5}"
proof (cases "max_by snd (ai_level_scores ud r)")
  case None
  then show ?thesis by (simp add: detect_ai_level_def)
next
  case (Some b)
  then have "fst b \<in> set (map fst (ai_level_scores ud r))"
    using max_by_mem [of snd "ai_level_scores ud r" b] by simp
  with Some show ?thesis by (simp add: detect_ai_level_def ai_level_scores_keys)
qed

lemma determine_achieved_level_range:
  "1 \<le> u \<Longrightarrow> 1 \<le> determine_achieved_level u a h \<and> determine_achieved_level u a h \<le> 5"
  by (simp add: determine_achieved_level_def Let_def)

lemma determine_achieved_level_bonus:
  assumes "h \<noteq> []" "max_level (previous_levels h) < max u a"
  shows "determine_achieved_level u a h = min (max u a + 1) 5"
  using assms by (simp add: determine_achieved_level_def Let_def)

lemma cps_achieved_range:
  "1 \<le> achieved_level (cps_analyze ud p r h) \<and> achieved_level (cps_analyze ud p r h) \<le> 5"
proof -
  have "1 \<le> detect_user_level ud p" using detect_user_level_range [of ud p] by auto
  then show ?thesis
    using determine_achieved_level_range [of "detect_user_level ud p"]
    by (simp add: cps_analyze_def Let_def)
qed

lemma cps_score_eq: "cps_score (cps_analyze ud p r h) = real_of_int (achieved_level (cps_analyze ud p r h)) / 5"
proof -
  have "round3 (real_of_int l / 5) = real_of_int l / 5" for l
    using round3_fixed [of "200 * l"] by simp
  then show ?thesis by (simp add: cps_analyze_def Let_def)
qed

lemma cps_score_unit: "0 \<le> cps_score (cps_analyze ud p r h) \<and> cps_score (cps_analyze ud p r h) \<le> 1"
  using cps_achieved_range [of ud p r h] by (simp add: cps_score_eq)

lemma determine_css_level_range:
  "1 \<le> determine_css_level x y z \<and> determine_css_level x y z \<le> 5"
  by (simp add: determine_css_level_def Let_def)

lemma css_score_eq: "css_score (css_analyze ud p r d) = real_of_int (css_level (css_analyze ud p r d)) / 5"
proof -
  have "round3 (real_of_int l / 5) = real_of_int l / 5" for l
    using round3_fixed [of "200 * l"] by simp
  then show ?thesis by (simp add: css_analyze_def Let_def)
qed

lemma css_score_unit: "0 \<le> css_score (css_analyze ud p r d) \<and> css_score (css_analyze ud p r d) \<le> 1"
proof -
  have "1 \<le> css_level (css_analyze ud p r d) \<and> css_level (css_analyze ud p r d) \<le> 5"
    using determine_css_level_range by (simp add: css_analyze_def Let_def)
  then show ?thesis by (simp add: css_score_eq)
qed

lemma clamp_range: "0.8 \<le> max 0.8 (min x 1.2) \<and> max 0.8 (min x 1.2) \<le> (1.2::real)"
  by simp

lemma calculate_am_range: "0.8 \<le> calculate_am u st r \<and> calculate_am u st r \<le> 1.2"
  unfolding calculate_am_def Let_def by (rule clamp_range)

lemma am_score_range: "0.8 \<le> am_score (am_analyze ud p r) \<and> am_score (am_analyze ud p r) \<le> 1.2"
proof -
  obtain u c where d: "detect_uip ud p = (u, c)" by (cases "detect_uip ud p")
  have "0.8 \<le> round3 (calculate_am u (am_analyze_ai_style ud r) r)
      \<and> round3 (calculate_am u (am_analyze_ai_style ud r) r) \<le> 1.2"
    using round3_between [of 800 "calculate_am u (am_analyze_ai_style ud r) r" 1200]
      calculate_am_range [of u "am_analyze_ai_style ud r" r] by simp
  with d show ?thesis by (simp add: am_analyze_def Let_def)
qed

lemma run_iai: "iai (fst (run_analyzers ud h p r)) = iai_score (iai_analyze ud p)"
  by (simp add: run_analyzers_def Let_def split_beta)

lemma run_cai: "cai (fst (run_analyzers ud h p r)) = (if r \<noteq> [] then cai_score (cai_analyze ud r) else 0)"
  by (simp add: run_analyzers_def Let_def split_beta)

lemma run_pas: "pas (fst (run_analyzers ud h p r)) = (if r \<noteq> [] then pas_score (pas_analyze ud r) else 0)"
  by (simp add: run_analyzers_def Let_def split_beta)

lemma run_sas:
  "sas (fst (run_analyzers ud h p r)) = (if r \<noteq> [] \<and> p \<noteq> [] then sas_score (sas_analyze ud p r) else 0.5)"
  by (simp add: run_analyzers_def Let_def split_beta)

lemma run_cps:
  "cps (fst (run_analyzers ud h p r)) = (if r \<noteq> [] \<and> p \<noteq> [] then cps_score (cps_analyze ud p r h) else 0.5)"
  by (simp add: run_analyzers_def Let_def split_beta)

lemma run_css:
  "css (fst (run_analyzers ud h p r)) =
     (if r \<noteq> [] \<and> p \<noteq> []
      then css_score (css_analyze ud p r \<lparr>response_length = length (str_split r),
                                        user_prompt_length = length (str_split p),
                                        has_ai_response = (str_strip r \<noteq> [])\<rparr>)
      else 0.5)"
  by (simp add: run_analyzers_def Let_def split_beta)

lemma run_am:
  "am (fst (run_analyzers ud h p r)) = (if r \<noteq> [] \<and> p \<noteq> [] then am_score (am_analyze ud p r) else 1)"
  by (simp add: run_analyzers_def Let_def split_beta)

lemma run_uip:
  "uip_detected (fst (run_analyzers ud h p r)) = (if r \<noteq> [] \<and> p \<noteq> [] then detected (am_analyze ud p r) else precision_seeker)"
  "uip_confidence (fst (run_analyzers ud h p r)) = (if r \<noteq> [] \<and> p \<noteq> [] then confidence (am_analyze ud p r) else 0.5)"
  by (simp_all add: run_analyzers_def Let_def split_beta)

lemma run_history:
  "snd (run_analyzers ud h p r) =
     (if r \<noteq> [] \<and> p \<noteq> [] then remember h p r (achieved_level (cps_analyze ud p r h)) else h)"
  by (simp add: run_analyzers_def Let_def split_beta)

lemma run_analyzers_in_range: "scores_in_range (fst (run_analyzers ud h p r))"
  unfolding scores_in_range_def in_unit_def
  using iai_score_unit [of ud p] cai_score_unit [of ud r] pas_score_unit [of ud r]
    sas_score_unit [of ud p r]
    cps_score_unit [of ud p r h] css_score_unit [of ud p r] am_score_range [of ud p r]
  by (simp add: run_iai run_cai run_pas run_sas run_cps run_css run_am)

lemma ri_score_range:
  assumes "scores_in_range s"
  shows "0 \<le> ri_score s \<and> ri_score s \<le> 1.2"
proof -
  let ?w = "iai s * 0.25 + cai s * 0.20 + pas s * 0.20 + sas s * 0.15 + cps s * 0.10 + css s * 0.10"
  from assms have w: "0 \<le> ?w" "?w \<le> 1" and a: "0 \<le> am s" "am s \<le> 1.2"
    by (simp_all add: scores_in_range_def in_unit_def)
  have "?w * am s \<le> 1 * 1.2" using w a by (intro mult_mono) simp_all
  moreover have "0 \<le> ?w * am s" using w a by (intro mult_nonneg_nonneg)
  ultimately show ?thesis by (simp add: ri_score_def)
qed


lemma analyze_interaction_Inr:
  assumes "analyze_interaction ud h p r = (Inr reply, h')"
  shows "p \<noteq> [] \<and> reply = build_response (fst (run_analyzers ud h p r)) \<and> h' = snd (run_analyzers ud h p r)"
  using assms by (cases "p = []") (auto simp: analyze_interaction_def split_beta)

lemma style_score_nonneg: "0 \<le> style_score ud r sd"
  by (simp add: style_score_def Let_def split: option.splits)

lemma style_score_le_1: "style_score ud r sd \<le> 1"
  by (simp add: style_score_def Let_def)

lemma style_score_no_patterns: "patterns sd = None \<Longrightarrow> style_score ud r sd \<le> 0.5"
  by (simp add: style_score_def Let_def split: option.splits)

lemma style_score_patterns:
  assumes "style_name sd \<noteq> ''concise''" "patterns sd = Some ps"
  shows "style_score ud r sd \<le> 0.3 * real (length ps)"
proof -
  let ?n = "length (filter (\<lambda>pattern. re_search ud no_flags pattern (str_lower ud r)) ps)"
  have "?n \<le> length ps" by (rule length_filter_le)
  then have le: "0.3 * real ?n \<le> 0.3 * real (length ps)" by simp
  have eq: "style_score ud r sd = min (0.3 * real ?n) 1"
    using assms by (simp add: style_score_def Let_def)
  have "min (0.3 * real ?n) 1 \<le> 0.3 * real ?n" by (rule min.cobounded1)
  with le eq show ?thesis by linarith
qed

lemma ai_style_keys: "map fst (am_analyze_ai_style ud r) = [''concise'', ''structured'', ''interactive'', ''framework'']"
  by (simp add: am_analyze_ai_style_def response_styles_def)

lemma style_get_concise: "0 \<le> style_get (am_analyze_ai_style ud r) ''concise'' \<and> style_get (am_analyze_ai_style ud r) ''concise'' \<le> 0.5"
  using style_score_no_patterns [of "\<lparr>style_name = ''concise'', max_words = Some 150, patterns = None\<rparr>" ud r]
    style_score_nonneg [of ud r "\<lparr>style_name = ''concise'', max_words = Some 150, patterns = None\<rparr>"]
  by (simp add: style_get_def am_analyze_ai_style_def response_styles_def)

lemma style_get_unit_valued: "unit_valued d \<Longrightarrow> 0 \<le> style_get d k \<and> style_get d k \<le> 1"
  by (induction d) (auto simp: unit_valued_def style_get_def)

lemma style_get_unit: "0 \<le> style_get (am_analyze_ai_style ud r) k \<and> style_get (am_analyze_ai_style ud r) k \<le> 1"
proof -
  have "unit_valued (am_analyze_ai_style ud r)"
    by (simp add: unit_valued_def am_analyze_ai_style_def list_all_iff style_score_nonneg style_score_le_1)
  then show ?thesis by (rule style_get_unit_valued)
qed

lemma style_get_interactive: "style_get (am_analyze_ai_style ud r) ''interactive'' \<le> 0.9"
  using style_score_patterns [of "\<lparr>style_name = ''interactive'', max_words = None,
       patterns = Some [Lit (CHR ''?''), lit ''your input'', lit ''collaborate'']\<rparr>"
       "[Lit (CHR ''?''), lit ''your input'', lit ''collaborate'']" ud r]
  by (simp add: style_get_def am_analyze_ai_style_def response_styles_def)

lemma style_get_missing:
  "k \<notin> set [''concise'', ''structured'', ''interactive'', ''framework''] \<Longrightarrow> style_get (am_analyze_ai_style ud r) k = 0"
  by (simp add: style_get_def am_analyze_ai_style_def response_styles_def)

lemma style_match_precision: "style_match_score precision_seeker (am_analyze_ai_style ud r) \<le> 0.375"
  using style_get_concise [of ud r] style_get_unit [of ud r "''structured''"]
    style_get_missing [of "''bounded''" ud r] style_get_missing [of "''bullet points''" ud r]
  by (simp add: style_match_score_def preferred_response_style_def Let_def)

lemma style_match_strategic: "style_match_score strategic_explorer (am_analyze_ai_style ud r) \<le> 0.5"
  using style_get_unit [of ud r "''framework''"] style_get_unit [of ud r "''structured''"]
    style_get_missing [of "''analogy''" ud r] style_get_missing [of "''overview''" ud r]
  by (simp add: style_match_score_def preferred_response_style_def Let_def)

lemma style_match_co_creation: "style_match_score co_creation_partner (am_analyze_ai_style ud r) \<le> 0.225"
  using style_get_interactive [of ud r]
    style_get_missing [of "''iterative''" ud r] style_get_missing [of "''suggestive''" ud r]
    style_get_missing [of "''questioning''" ud r]
  by (simp add: style_match_score_def preferred_response_style_def Let_def)

lemma style_match_below: "style_match_score u (am_analyze_ai_style ud r) \<le> 0.5"
  using style_match_precision [of ud r] style_match_strategic [of ud r] style_match_co_creation [of ud r]
  by (cases u) simp_all

lemma calculate_am_precision: "calculate_am precision_seeker (am_analyze_ai_style ud r) r \<le> 0.9"
  using style_match_precision [of ud r] by (simp add: calculate_am_def Let_def)

lemma calculate_am_le_1: "calculate_am u (am_analyze_ai_style ud r) r \<le> 1"
proof (cases u)
  case precision_seeker
  with calculate_am_precision [of ud r] show ?thesis by simp
next
  case strategic_explorer
  with style_match_strategic [of ud r] show ?thesis by (simp add: calculate_am_def Let_def)
next
  case co_creation_partner
  with style_match_co_creation [of ud r] show ?thesis by (simp add: calculate_am_def Let_def)
qed

lemma am_score_eq:
  "am_score (am_analyze ud p r) = round3 (calculate_am (fst (detect_uip ud p)) (am_analyze_ai_style ud r) r)"
  "detected (am_analyze ud p r) = fst (detect_uip ud p)"
  "confidence (am_analyze ud p r) = snd (detect_uip ud p)"
  by (simp_all add: am_analyze_def Let_def split_beta)

lemma am_score_le_1: "am_score (am_analyze ud p r) \<le> 1"
  using round3_mono [OF calculate_am_le_1 [of "fst (detect_uip ud p)" ud r]]
  by (simp add: am_score_eq round3_numerals)

lemma am_score_precision:
  assumes "detected (am_analyze ud p r) = precision_seeker"
  shows "am_score (am_analyze ud p r) \<le> 0.9"
proof -
  have "round3 (calculate_am precision_seeker (am_analyze_ai_style ud r) r) \<le> round3 0.9"
    by (rule round3_mono [OF calculate_am_precision])
  moreover have "round3 0.9 = 0.9" using round3_fixed [of 900] by simp
  ultimately show ?thesis using assms by (simp add: am_score_eq)
qed

lemma length_last_n: "length (last_n n xs) \<le> n"
  by (simp add: last_n_def)

lemma drop_index_eq: "i = j \<Longrightarrow> drop i xs = drop j xs"
  by simp

lemma last_n_append: "last_n n (last_n n xs @ ys) = last_n n (xs @ ys)"
  by (simp add: last_n_def) (rule drop_index_eq, arith)

lemma last_n_last_n: "m \<le> n \<Longrightarrow> last_n m (last_n n xs) = last_n m xs"
  by (simp add: last_n_def) (rule drop_index_eq, arith)

lemma last_n_Nil_iff: "0 < n \<Longrightarrow> last_n n xs = [] \<longleftrightarrow> xs = []"
  by (cases xs) (auto simp: last_n_def)

lemma snd_analyze_interaction:
  "snd (analyze_interaction ud h p r) =
     (if p \<noteq> [] \<and> r \<noteq> [] then remember h p r (achieved_level (cps_analyze ud p r h)) else h)"
  by (simp add: analyze_interaction_def split_beta run_history)

lemma determine_achieved_level_window:
  "determine_achieved_level u a (last_n 10 H) = determine_achieved_level u a H"
  by (simp add: determine_achieved_level_def previous_levels_def last_n_last_n last_n_Nil_iff)

lemma cps_analyze_window: "cps_analyze ud p r (last_n 10 H) = cps_analyze ud p r H"
  by (simp add: cps_analyze_def determine_achieved_level_window)

lemma serve_full_log: "serve ud (last_n 10 H) reqs = last_n 10 (full_log ud H reqs)"
proof (induction reqs arbitrary: H)
  case Nil
  show ?case by simp
next
  case (Cons e reqs)
  obtain p r where e: "e = (p, r)" by (cases e)
  show ?case
  proof (cases "p \<noteq> [] \<and> r \<noteq> []")
    case True
    let ?t = "\<lparr>user_prompt = p, ai_response = r, cps_level = Some (achieved_level (cps_analyze ud p r H))\<rparr>"
    have "snd (analyze_interaction ud (last_n 10 H) p r) = last_n 10 (H @ [?t])"
      using True by (simp add: snd_analyze_interaction remember_def cps_analyze_window last_n_append)
    with True e Cons.IH [of "H @ [?t]"] show ?thesis by simp
  next
    case False
    then have "snd (analyze_interaction ud (last_n 10 H) p r) = last_n 10 H"
      by (auto simp: snd_analyze_interaction)
    with False e Cons.IH [of H] show ?thesis by auto
  qed
qed

lemma full_log_exchanges:
  "map exchange_of (full_log ud H reqs) = map exchange_of H @ filter has_both reqs"
  by (induction reqs arbitrary: H) (auto simp: exchange_of_def has_both_def)

lemma length_serve: "length (serve ud [] reqs) \<le> 10"
  using serve_full_log [of ud "[]" reqs] by (simp add: last_n_def)

lemma previous_levels_222:
  "map cps_level h = [Some 2, Some 2, Some 2] \<Longrightarrow> h \<noteq> [] \<and> max_level (previous_levels h) = 2"
proof -
  assume a: "map cps_level h = [Some 2, Some 2, Some 2]"
  then have l: "length h = 3" using length_map [of cps_level h] by simp
  then have "last_n 3 h = h" by (simp add: last_n_def)
  then have "previous_levels h = map (\<lambda>x. case x of Some l \<Rightarrow> l | None \<Rightarrow> 1) (map cps_level h)"
    by (simp add: previous_levels_def comp_def)
  with a l show ?thesis by (auto simp: max_level_def)
qed

lemma expectation_sync_cases:
  "calculate_expectation_sync ud p r =
     (let n = expectation_matches (str_lower ud p) (str_lower ud r)
      in if n = 0 then 0.7 else if n = 1 then 0.7 else if n = 2 then 0.9 else 1)"
proof -
  let ?n = "expectation_matches (str_lower ud p) (str_lower ud r)"
  consider "?n = 0" | "?n = 1" | "?n = 2" | "3 \<le> ?n" by linarith
  then show ?thesis
  proof cases
    case 4
    then have "1 \<le> 0.5 + real ?n * 0.2" by simp
    with 4 show ?thesis by (simp add: calculate_expectation_sync_def Let_def)
  qed (simp_all add: calculate_expectation_sync_def Let_def)
qed

lemma expectation_matches_none:
  "list_all (\<lambda>word. \<not> str_in (ascii word) pl) expectation_words \<Longrightarrow> expectation_matches pl rl = 0"
  by (simp add: expectation_matches_def list_all_iff filter_empty_conv)






lemma hi_ok_run: "run_analyzers ud [] (ascii ''hi'') (ascii ''ok'') = (hi_ok_scores, [hi_ok_turn])"
  by code_simp

lemma hi_ok_build: "build_response hi_ok_scores = hi_ok_reply"
  by (simp add: build_response_def hi_ok_scores_def hi_ok_reply_def ri_score_def round3_def
        round_half_even_def)

lemma hi_ok_exchange: "analyze_interaction ud [] (ascii ''hi'') (ascii ''ok'') = (Inr hi_ok_reply, [hi_ok_turn])"
  by (simp add: analyze_interaction_def hi_ok_run hi_ok_build)




lemma map_last_n: "map f (last_n n xs) = last_n n (map f xs)"
  by (simp add: last_n_def drop_map)

lemma how_to_levels: "detect_user_level ud (ascii ''how to'') = 3 \<and> detect_ai_level ud (ascii ''ok'') = 1"
  by code_simp

lemma hi_no_expectation: "list_all (\<lambda>word. \<not> str_in (ascii word) (str_lower ud (ascii ''hi''))) expectation_words"
  by code_simp




lemma hi_intent: "detected (am_analyze ud (ascii ''hi'') (ascii ''ok'')) = precision_seeker"
proof -
  have "uip_detected (fst (run_analyzers ud [] (ascii ''hi'') (ascii ''ok''))) = detected (am_analyze ud (ascii ''hi'') (ascii ''ok''))"
    by (simp add: run_uip)
  moreover have "uip_detected (fst (run_analyzers ud [] (ascii ''hi'') (ascii ''ok''))) = precision_seeker"
    by (simp add: hi_ok_run hi_ok_scores_def)
  ultimately show ?thesis by simp
qed

lemma am_build_together:
  "am_analyze ud build_together your_input
     = \<lparr>am_score = 1, detected = co_creation_partner, confidence = 2 / 3,
        ai_response_style = [(''concise'', 0.5), (''structured'', 0), (''interactive'', 0.9),
                             (''framework'', 0)]\<rparr>"
  by code_simp

lemma length_step: "length h \<le> 10 \<Longrightarrow> length (snd (analyze_interaction ud h p r)) \<le> 10"
  by (simp add: snd_analyze_interaction remember_def length_last_n)

lemma length_serve_from: "length h \<le> 10 \<Longrightarrow> length (serve ud h reqs) \<le> 10"
proof (induction reqs arbitrary: h)
  case Nil
  then show ?case by simp
next
  case (Cons e reqs)
  obtain p r where e: "e = (p, r)" by (cases e)
  have "length (snd (analyze_interaction ud h p r)) \<le> 10" using Cons.prems by (rule length_step)
  then have "length (serve ud (snd (analyze_interaction ud h p r)) reqs) \<le> 10" by (rule Cons.IH)
  then show ?case by (simp add: e)
qed

lemma max_by_from_first:
  "list_all (\<lambda>x. \<not> key b < key x) xs \<Longrightarrow> max_by_from key b xs = b"
  by (induction xs) simp_all

lemma max_by_from_ge: "key b \<le> key (max_by_from key b xs)"
proof (induction xs arbitrary: b)
  case Nil
  show ?case by simp
next
  case (Cons y ys)
  have "key b \<le> key (if key b < key y then y else b)" by simp
  also have "\<dots> \<le> key (max_by_from key (if key b < key y then y else b) ys)" by (rule Cons.IH)
  finally show ?case by simp
qed

lemma max_by_from_max: "x \<in> set xs \<Longrightarrow> key x \<le> key (max_by_from key b xs)"
proof (induction xs arbitrary: b)
  case Nil
  then show ?case by simp
next
  case (Cons y ys)
  show ?case
  proof (cases "x = y")
    case True
    have "key y \<le> key (if key b < key y then y else b)" by simp
    also have "\<dots> \<le> key (max_by_from key (if key b < key y then y else b) ys)"
      by (rule max_by_from_ge)
    finally show ?thesis using True by simp
  next
    case False
    with Cons.prems have "x \<in> set ys" by simp
    then have "key x \<le> key (max_by_from key (if key b < key y then y else b) ys)"
      by (rule Cons.IH)
    then show ?thesis by simp
  qed
qed

lemma detect_ai_level_argmax:
  "\<exists>n. (detect_ai_level ud r, n) \<in> set (ai_level_scores ud r)
       \<and> list_all (\<lambda>(l, m). m \<le> n) (ai_level_scores ud r)"
proof -
  obtain x xs where c: "ai_level_scores ud r = x # xs"
    using ai_level_scores_keys [of ud r] by (cases "ai_level_scores ud r") simp_all
  let ?b = "max_by_from snd x xs"
  have d: "detect_ai_level ud r = fst ?b" by (simp add: detect_ai_level_def c)
  have m: "?b \<in> set (ai_level_scores ud r)" using max_by_from_mem [of snd x xs] by (simp add: c)
  have "snd y \<le> snd ?b" if "y \<in> set (x # xs)" for y
  proof (cases "y = x")
    case True
    then show ?thesis by (simp add: max_by_from_ge)
  next
    case False
    with that have "y \<in> set xs" by simp
    then show ?thesis by (rule max_by_from_max)
  qed
  then have "list_all (\<lambda>(l, m). m \<le> snd ?b) (ai_level_scores ud r)"
    unfolding c list_all_iff by (intro ballI) (simp add: split_beta)
  with m show ?thesis unfolding d by (intro exI [of _ "snd ?b"]) simp
qed

lemma detect_ai_level_all_zero:
  assumes "list_all (\<lambda>(l, m). m = 0) (ai_level_scores ud r)"
  shows "detect_ai_level ud r = 1"
proof -
  obtain x xs where c: "ai_level_scores ud r = x # xs" and x: "fst x = 1"
    using ai_level_scores_keys [of ud r] by (cases "ai_level_scores ud r") auto
  have "list_all (\<lambda>y. \<not> snd x < snd y) xs" using assms by (auto simp: c list_all_iff)
  then have "max_by_from snd x xs = x" by (rule max_by_from_first)
  then show ?thesis by (simp add: detect_ai_level_def c x)
qed

lemma hello_scores: "ai_level_scores ud (ascii ''hello'') = [(1, 0), (2, 0), (3, 0), (4, 0), (5, 0)]"
  by code_simp

lemma anchors_valid: "list_all (\<lambda>a. validate_anchor a t) (anchors_of_type ud t sentences)"
  by (auto simp: anchors_of_type_def anchors_in_sentence_def Let_def list_all_iff)

lemma cai_analyze_fields:
  "boundary_found (cai_analyze ud t)
     = anchors_of_type ud boundary_anchors (re_split ud sentence_end (str_lower ud t))"
  "analogy_found (cai_analyze ud t)
     = anchors_of_type ud analogy_anchors (re_split ud sentence_end (str_lower ud t))"
  "hypothesis_found (cai_analyze ud t)
     = anchors_of_type ud hypothesis_anchors (re_split ud sentence_end (str_lower ud t))"
  "total_valid_anchors (cai_analyze ud t)
     = length (boundary_found (cai_analyze ud t)) + length (analogy_found (cai_analyze ud t))
       + length (hypothesis_found (cai_analyze ud t))"
  "cai_score (cai_analyze ud t) = step_function (total_valid_anchors (cai_analyze ud t))"
  by (simp_all add: cai_analyze_def Let_def step_function_def)

lemma cai_river:
  "cai_analyze ud river
     = \<lparr>cai_score = 0.25, boundary_found = [], analogy_found = [ascii ''like a river''],
        hypothesis_found = [], total_valid_anchors = 1\<rparr>"
  by code_simp

lemma cai_cats:
  "cai_analyze ud cats
     = \<lparr>cai_score = 0.5,
        boundary_found = [ascii ''not about cats'', ascii ''this is not about cats''],
        analogy_found = [], hypothesis_found = [], total_valid_anchors = 2\<rparr>"
  by code_simp

lemma cai_three:
  "cai_analyze ud three_anchors
     = \<lparr>cai_score = 0.75, boundary_found = [],
        analogy_found = [ascii ''like a river'', ascii ''akin to rain''],
        hypothesis_found = [ascii ''suppose we go''], total_valid_anchors = 3\<rparr>"
  by code_simp

lemma cai_five:
  "cai_analyze ud five_anchors
     = \<lparr>cai_score = 1, boundary_found = [ascii ''instead of tea''],
        analogy_found = [ascii ''like a river'', ascii ''as if by magic'', ascii ''akin to rain''],
        hypothesis_found = [ascii ''suppose we go''], total_valid_anchors = 5\<rparr>"
  by code_simp

lemma cai_vague:
  "cai_analyze ud vague
     = \<lparr>cai_score = 0, boundary_found = [], analogy_found = [], hypothesis_found = [],
        total_valid_anchors = 0\<rparr>"
  by code_simp

lemma cai_no_break:
  "cai_analyze plain_tables no_break
     = \<lparr>cai_score = 0, boundary_found = [], analogy_found = [], hypothesis_found = [],
        total_valid_anchors = 0\<rparr>"
  by code_simp

lemma list_expectation:
  "str_in (ascii ''list'') (str_lower ud (ascii ''list''))
   \<and> expectation_matches (str_lower ud (ascii ''list'')) (str_lower ud (ascii ''hello'')) = 0
   \<and> calculate_expectation_sync ud (ascii ''list'') (ascii ''hello'') = 0.7"
  by code_simp

lemma hi_ok_analyzers:
  "iai_score (iai_analyze ud (ascii ''hi'')) = 0.13
   \<and> cai_score (cai_analyze ud (ascii ''ok'')) = 0
   \<and> pas_score (pas_analyze ud (ascii ''ok'')) = 0.025
   \<and> sas_score (sas_analyze ud (ascii ''hi'') (ascii ''ok'')) = 0.605
   \<and> cps_score (cps_analyze ud (ascii ''hi'') (ascii ''ok'') []) = 0.2
   \<and> am_score (am_analyze ud (ascii ''hi'') (ascii ''ok'')) = 0.8"
proof -
  have s: "fst (run_analyzers ud [] (ascii ''hi'') (ascii ''ok'')) = hi_ok_scores"
    by (simp add: hi_ok_run)
  have "iai (fst (run_analyzers ud [] (ascii ''hi'') (ascii ''ok''))) = 0.13"
    "cai (fst (run_analyzers ud [] (ascii ''hi'') (ascii ''ok''))) = 0"
    "pas (fst (run_analyzers ud [] (ascii ''hi'') (ascii ''ok''))) = 0.025"
    "sas (fst (run_analyzers ud [] (ascii ''hi'') (ascii ''ok''))) = 0.605"
    "cps (fst (run_analyzers ud [] (ascii ''hi'') (ascii ''ok''))) = 0.2"
    "am (fst (run_analyzers ud [] (ascii ''hi'') (ascii ''ok''))) = 0.8"
    unfolding s by (simp_all add: hi_ok_scores_def)
  then show ?thesis by (simp add: run_iai run_cai run_pas run_sas run_cps run_am)
qed

section \<open>The properties\<close>




text \<open>
  Claim C2. For every prompt and every response, each of the six dimension scores lies in
  [0, 1] and the alignment multiplier lies in [0.8, 1.2], as the analyzers return them and
  as the handler holds them (\<open>scores_in_range\<close>); so the resonance index lies in [0, 1.2],
  before rounding (\<open>ri_score\<close>) and in the reply, where the rounded scores are in range too.
\<close>

theorem scores_within_bounds:
  assumes ok: "analyze_interaction ud h prompt response = (Inr reply, h')"
  shows "in_unit (iai_score (iai_analyze ud prompt)) \<and> in_unit (cai_score (cai_analyze ud response))
         \<and> in_unit (pas_score (pas_analyze ud response))
         \<and> in_unit (sas_score (sas_analyze ud prompt response))
         \<and> in_unit (cps_score (cps_analyze ud prompt response h))
         \<and> in_unit (css_score (css_analyze ud prompt response d))
         \<and> 0.8 \<le> am_score (am_analyze ud prompt response)
         \<and> am_score (am_analyze ud prompt response) \<le> 1.2
         \<and> scores_in_range (fst (run_analyzers ud h prompt response))
         \<and> in_unit (dim_iai reply) \<and> in_unit (dim_cai reply) \<and> in_unit (dim_pas reply)
         \<and> in_unit (dim_sas reply) \<and> in_unit (dim_cps reply) \<and> in_unit (dim_css reply)
         \<and> 0.8 \<le> alignment_modulator reply \<and> alignment_modulator reply \<le> 1.2
         \<and> 0 \<le> ri_score (fst (run_analyzers ud h prompt response))
         \<and> ri_score (fst (run_analyzers ud h prompt response)) \<le> 1.2
         \<and> 0 \<le> resonance_index reply \<and> resonance_index reply \<le> 1.2"
proof -
  let ?s = "fst (run_analyzers ud h prompt response)"
  have r: "reply = build_response ?s" using analyze_interaction_Inr [OF ok] by simp
  have s: "scores_in_range ?s" by (rule run_analyzers_in_range)
  have ri: "0 \<le> ri_score ?s \<and> ri_score ?s \<le> 1.2" using s by (rule ri_score_range)
  have rri: "0 \<le> round3 (ri_score ?s) \<and> round3 (ri_score ?s) \<le> 1.2"
    using round3_between [of 0 "ri_score ?s" 1200] ri by simp
  have u: "in_unit (round3 x)" if "in_unit x" for x
    using that round3_unit [of x] by (simp add: in_unit_def)
  have a: "in_unit (iai_score (iai_analyze ud prompt)) \<and> in_unit (cai_score (cai_analyze ud response))
         \<and> in_unit (pas_score (pas_analyze ud response))
         \<and> in_unit (sas_score (sas_analyze ud prompt response))
         \<and> in_unit (cps_score (cps_analyze ud prompt response h))
         \<and> in_unit (css_score (css_analyze ud prompt response d))
         \<and> 0.8 \<le> am_score (am_analyze ud prompt response)
         \<and> am_score (am_analyze ud prompt response) \<le> 1.2"
    unfolding in_unit_def
    using iai_score_unit [of ud prompt] cai_score_unit [of ud response]
      pas_score_unit [of ud response] sas_score_unit [of ud prompt response]
      cps_score_unit [of ud prompt response h] css_score_unit [of ud prompt response d]
      am_score_range [of ud prompt response]
    by simp
  from s have "in_unit (iai ?s)" "in_unit (cai ?s)" "in_unit (pas ?s)" "in_unit (sas ?s)"
    "in_unit (cps ?s)" "in_unit (css ?s)" "0.8 \<le> am ?s" "am ?s \<le> 1.2"
    by (simp_all add: scores_in_range_def)
  with s ri rri a show ?thesis
    unfolding r build_response_def by (simp add: u)
qed

text \<open>Claim C2 on the prompt \<open>hi\<close> with the response \<open>ok\<close>.\<close>

theorem scores_within_bounds_witness:
  "\<forall>ud. analyze_interaction ud [] (ascii ''hi'') (ascii ''ok'') = (Inr hi_ok_reply, [hi_ok_turn])
      \<and> fst (run_analyzers ud [] (ascii ''hi'') (ascii ''ok'')) = hi_ok_scores
      \<and> scores_in_range hi_ok_scores
      \<and> in_unit (dim_iai hi_ok_reply) \<and> in_unit (dim_sas hi_ok_reply)
      \<and> 0.8 \<le> alignment_modulator hi_ok_reply \<and> alignment_modulator hi_ok_reply \<le> 1.2
      \<and> 0 \<le> resonance_index hi_ok_reply \<and> resonance_index hi_ok_reply \<le> 1.2"
proof
  fix ud
  show "analyze_interaction ud [] (ascii ''hi'') (ascii ''ok'') = (Inr hi_ok_reply, [hi_ok_turn])
      \<and> fst (run_analyzers ud [] (ascii ''hi'') (ascii ''ok'')) = hi_ok_scores
      \<and> scores_in_range hi_ok_scores
      \<and> in_unit (dim_iai hi_ok_reply) \<and> in_unit (dim_sas hi_ok_reply)
      \<and> 0.8 \<le> alignment_modulator hi_ok_reply \<and> alignment_modulator hi_ok_reply \<le> 1.2
      \<and> 0 \<le> resonance_index hi_ok_reply \<and> resonance_index hi_ok_reply \<le> 1.2"
    using scores_within_bounds [OF hi_ok_exchange [of ud]] by (simp add: hi_ok_run hi_ok_exchange)
qed




text \<open>
  Claim C4. The conversation history never exceeds 10 entries. A request with a prompt and a
  response appends its turn and cuts the history to its last ten entries; a request without
  a response (or without a prompt) leaves the history as it was. So a history of at most ten
  entries stays so, and served from the empty history it is at every moment the last ten
  entries of the log of all complete exchanges, in the order in which they came; after 11
  appends the first entry is gone and the other ten remain in order.
\<close>

theorem history_window:
  "length (serve ud [] reqs) \<le> 10
   \<and> serve ud [] reqs = last_n 10 (full_log ud [] reqs)
   \<and> map exchange_of (full_log ud [] reqs) = filter has_both reqs
   \<and> (prompt \<noteq> [] \<and> response \<noteq> [] \<longrightarrow>
        snd (analyze_interaction ud h prompt response)
          = last_n 10 (h @ [\<lparr>user_prompt = prompt, ai_response = response,
                              cps_level = Some (achieved_level (cps_analyze ud prompt response h))\<rparr>]))
   \<and> (prompt = [] \<or> response = [] \<longrightarrow> snd (analyze_interaction ud h prompt response) = h)
   \<and> (length h \<le> 10 \<longrightarrow> length (serve ud h reqs) \<le> 10)
   \<and> (length reqs = 11 \<and> list_all has_both reqs \<longrightarrow> map exchange_of (serve ud [] reqs) = tl reqs)"
proof -
  have w: "serve ud [] reqs = last_n 10 (full_log ud [] reqs)"
    using serve_full_log [of ud "[]" reqs] by (simp add: last_n_def)
  have e: "map exchange_of (full_log ud [] reqs) = filter has_both reqs"
    by (simp add: full_log_exchanges)
  have "map exchange_of (serve ud [] reqs) = tl reqs" if "length reqs = 11" "list_all has_both reqs"
  proof -
    from that(2) have "filter has_both reqs = reqs" by (simp add: list_all_iff)
    then have "map exchange_of (serve ud [] reqs) = last_n 10 reqs"
      using e by (simp add: w map_last_n)
    moreover have "last_n 10 reqs = tl reqs" using that(1) by (simp add: last_n_def drop_Suc)
    ultimately show ?thesis by simp
  qed
  moreover have "length (serve ud h reqs) \<le> 10" if "length h \<le> 10"
    using that by (rule length_serve_from)
  ultimately show ?thesis
    using w e length_serve [of ud reqs] by (auto simp: snd_analyze_interaction remember_def)
qed

text \<open>Claim C4 on eleven complete exchanges, and on a prompt without a response.\<close>

theorem history_window_witness:
  "\<forall>ud. snd (analyze_interaction ud [hi_ok_turn] for_loop []) = [hi_ok_turn]
      \<and> snd (analyze_interaction ud [] (ascii ''hi'') (ascii ''ok'')) = [hi_ok_turn]
      \<and> length eleven = 11
      \<and> map exchange_of (serve ud [] eleven) = tl eleven
      \<and> length (serve ud [] eleven) \<le> 10"
proof
  fix ud
  have "length eleven = 11 \<and> list_all has_both eleven" by (simp add: eleven_def has_both_def)
  with history_window [of ud eleven for_loop "[]" "[hi_ok_turn]"]
  have "snd (analyze_interaction ud [hi_ok_turn] for_loop []) = [hi_ok_turn]
      \<and> length eleven = 11
      \<and> map exchange_of (serve ud [] eleven) = tl eleven
      \<and> length (serve ud [] eleven) \<le> 10" by blast
  then
  show "snd (analyze_interaction ud [hi_ok_turn] for_loop []) = [hi_ok_turn]
      \<and> snd (analyze_interaction ud [] (ascii ''hi'') (ascii ''ok'')) = [hi_ok_turn]
      \<and> length eleven = 11
      \<and> map exchange_of (serve ud [] eleven) = tl eleven
      \<and> length (serve ud [] eleven) \<le> 10"
    by (simp add: hi_ok_exchange)
qed

text \<open>
  Claim C5. For every response text, the CAI score is the step function of the number of
  valid anchors summed over the three families (boundary, analogy, hypothesis): 0 anchors give
  0.0, 1 gives 0.25, 2 give 0.5, 3 give 0.75, 4 or more give 1.0; so the score is one of
  0, 0.25, 0.5, 0.75 and 1. The anchors of a family are the cleaned matches of its patterns
  in the sentences of the lowercased text that pass the validation.
\<close>

theorem cai_step_function:
  fixes ud :: unicode_data and t :: str and sentences :: "str list"
  defines "sentences \<equiv> re_split ud sentence_end (str_lower ud t)"
  shows "boundary_found (cai_analyze ud t) = anchors_of_type ud boundary_anchors sentences
         \<and> analogy_found (cai_analyze ud t) = anchors_of_type ud analogy_anchors sentences
         \<and> hypothesis_found (cai_analyze ud t) = anchors_of_type ud hypothesis_anchors sentences
         \<and> list_all (\<lambda>a. validate_anchor a boundary_anchors) (boundary_found (cai_analyze ud t))
         \<and> list_all (\<lambda>a. validate_anchor a analogy_anchors) (analogy_found (cai_analyze ud t))
         \<and> list_all (\<lambda>a. validate_anchor a hypothesis_anchors) (hypothesis_found (cai_analyze ud t))
         \<and> total_valid_anchors (cai_analyze ud t)
             = length (anchors_of_type ud boundary_anchors sentences)
               + length (anchors_of_type ud analogy_anchors sentences)
               + length (anchors_of_type ud hypothesis_anchors sentences)
         \<and> cai_score (cai_analyze ud t)
             = step_function (length (anchors_of_type ud boundary_anchors sentences)
                              + length (anchors_of_type ud analogy_anchors sentences)
                              + length (anchors_of_type ud hypothesis_anchors sentences))
         \<and> cai_score (cai_analyze ud t) \<in> {0, 0.25, 0.5, 0.75, 1}"
  unfolding sentences_def
  using cai_score_ladder [of ud t] by (simp add: cai_analyze_fields anchors_valid)

text \<open>
  Claim C5 on responses with one, two, three, five and no valid anchor, and on one whose
  hypothesis is white space only (a no-break space), which the validation rejects.
\<close>

theorem cai_step_function_witness:
  "\<forall>ud. cai_score (cai_analyze ud river) = 0.25
      \<and> anchors_of_type ud analogy_anchors (re_split ud sentence_end (str_lower ud river))
          = [ascii ''like a river'']
      \<and> cai_score (cai_analyze ud cats) = 0.5
      \<and> anchors_of_type ud boundary_anchors (re_split ud sentence_end (str_lower ud cats))
          = [ascii ''not about cats'', ascii ''this is not about cats'']
      \<and> cai_score (cai_analyze ud three_anchors) = 0.75
      \<and> total_valid_anchors (cai_analyze ud three_anchors) = 3
      \<and> cai_score (cai_analyze ud five_anchors) = 1
      \<and> total_valid_anchors (cai_analyze ud five_anchors) = 5
      \<and> cai_score (cai_analyze ud vague) = 0
      \<and> cai_score (cai_analyze plain_tables no_break) = 0"
proof
  fix ud
  show "cai_score (cai_analyze ud river) = 0.25
      \<and> anchors_of_type ud analogy_anchors (re_split ud sentence_end (str_lower ud river))
          = [ascii ''like a river'']
      \<and> cai_score (cai_analyze ud cats) = 0.5
      \<and> anchors_of_type ud boundary_anchors (re_split ud sentence_end (str_lower ud cats))
          = [ascii ''not about cats'', ascii ''this is not about cats'']
      \<and> cai_score (cai_analyze ud three_anchors) = 0.75
      \<and> total_valid_anchors (cai_analyze ud three_anchors) = 3
      \<and> cai_score (cai_analyze ud five_anchors) = 1
      \<and> total_valid_anchors (cai_analyze ud five_anchors) = 5
      \<and> cai_score (cai_analyze ud vague) = 0
      \<and> cai_score (cai_analyze plain_tables no_break) = 0"
    using cai_step_function [of ud river] cai_step_function [of ud cats]
    by (simp add: cai_river cai_cats cai_three cai_five cai_vague cai_no_break)
qed

text \<open>
  Claim C6. When the history is not empty and \<open>base_level = max(user_level, ai_level)\<close> is
  greater than the largest level of the last three turns, the achieved level is the base
  level plus one, capped at 5; with the history levels 2, 2, 2 and a base level of 3 the
  achieved level is 4 and the CPS score is 4/5.
\<close>

theorem progression_bonus:
  "(h \<noteq> [] \<and> max_level (previous_levels h) < max user_level ai_level
      \<longrightarrow> determine_achieved_level user_level ai_level h = min (max user_level ai_level + 1) 5)
   \<and> (map cps_level h = [Some 2, Some 2, Some 2]
        \<and> max (detect_user_level ud prompt) (detect_ai_level ud response) = 3
      \<longrightarrow> achieved_level (cps_analyze ud prompt response h) = 4
          \<and> cps_score (cps_analyze ud prompt response h) = 4 / 5)"
proof -
  have "achieved_level (cps_analyze ud prompt response h) = 4
        \<and> cps_score (cps_analyze ud prompt response h) = 4 / 5"
    if l: "map cps_level h = [Some 2, Some 2, Some 2]"
      and b: "max (detect_user_level ud prompt) (detect_ai_level ud response) = 3"
  proof -
    have "achieved_level (cps_analyze ud prompt response h)
        = determine_achieved_level (detect_user_level ud prompt) (detect_ai_level ud response) h"
      by (simp add: cps_analyze_def Let_def)
    also have "\<dots> = min (max (detect_user_level ud prompt) (detect_ai_level ud response) + 1) 5"
      using previous_levels_222 [OF l] b by (intro determine_achieved_level_bonus) simp_all
    finally have "achieved_level (cps_analyze ud prompt response h) = 4" using b by simp
    then show ?thesis by (simp add: cps_score_eq)
  qed
  then show ?thesis by (simp add: determine_achieved_level_bonus)
qed

text \<open>Claim C6 on the prompt \<open>how to\<close> (user level 3) and the response \<open>ok\<close>.\<close>

theorem progression_bonus_witness:
  "\<forall>ud. determine_achieved_level 3 1 [level_2_turn, level_2_turn, level_2_turn] = 4
      \<and> detect_user_level ud (ascii ''how to'') = 3 \<and> detect_ai_level ud (ascii ''ok'') = 1
      \<and> achieved_level (cps_analyze ud (ascii ''how to'') (ascii ''ok'')
                           [level_2_turn, level_2_turn, level_2_turn]) = 4
      \<and> cps_score (cps_analyze ud (ascii ''how to'') (ascii ''ok'')
                      [level_2_turn, level_2_turn, level_2_turn]) = 4 / 5"
proof
  fix ud
  let ?h = "[level_2_turn, level_2_turn, level_2_turn]"
  have l: "map cps_level ?h = [Some 2, Some 2, Some 2]" by (simp add: level_2_turn_def)
  have m: "?h \<noteq> [] \<and> max_level (previous_levels ?h) < max 3 1"
    using previous_levels_222 [OF l] by simp
  have b: "max (detect_user_level ud (ascii ''how to'')) (detect_ai_level ud (ascii ''ok'')) = 3"
    by (simp add: how_to_levels)
  show "determine_achieved_level 3 1 ?h = 4
      \<and> detect_user_level ud (ascii ''how to'') = 3 \<and> detect_ai_level ud (ascii ''ok'') = 1
      \<and> achieved_level (cps_analyze ud (ascii ''how to'') (ascii ''ok'') ?h) = 4
      \<and> cps_score (cps_analyze ud (ascii ''how to'') (ascii ''ok'') ?h) = 4 / 5"
    using progression_bonus [of ?h 3 1 ud "ascii ''how to''" "ascii ''ok''"] l m b
    by (simp add: how_to_levels)
qed

text \<open>
  Claim C7, as the code has it. The detected level is a level of largest keyword count, the
  first such level of the table. The table of counts has the five levels for every
  response, so the test for an empty table never fails and the default 2 behind it is never
  returned: a response that matches no keyword of any level has every count 0 and is given
  level 1.
\<close>

theorem detect_ai_level_no_match:
  "map fst (ai_level_scores ud response) = [1, 2, 3, 4, 5]
   \<and> max_by snd (ai_level_scores ud response) \<noteq> None
   \<and> (\<exists>n. (detect_ai_level ud response, n) \<in> set (ai_level_scores ud response)
          \<and> list_all (\<lambda>(l, m). m \<le> n) (ai_level_scores ud response))
   \<and> (list_all (\<lambda>(l, m). m = 0) (ai_level_scores ud response)
        \<longrightarrow> detect_ai_level ud response = 1)"
proof -
  have k: "map fst (ai_level_scores ud response) = [1, 2, 3, 4, 5]"
    by (rule ai_level_scores_keys)
  then have "ai_level_scores ud response \<noteq> []" by auto
  then have "max_by snd (ai_level_scores ud response) \<noteq> None"
    by (cases "ai_level_scores ud response") simp_all
  with k detect_ai_level_argmax [of ud response] show ?thesis
    by (simp add: detect_ai_level_all_zero)
qed

text \<open>Claim C7 on the response \<open>hello\<close>, which matches no keyword: level 1, not 2.\<close>

theorem detect_ai_level_no_match_witness:
  "\<forall>ud. ai_level_scores ud (ascii ''hello'') = [(1, 0), (2, 0), (3, 0), (4, 0), (5, 0)]
      \<and> detect_ai_level ud (ascii ''hello'') = 1
      \<and> detect_ai_level ud (ascii ''hello'') \<noteq> 2"
proof
  fix ud
  show "ai_level_scores ud (ascii ''hello'') = [(1, 0), (2, 0), (3, 0), (4, 0), (5, 0)]
      \<and> detect_ai_level ud (ascii ''hello'') = 1
      \<and> detect_ai_level ud (ascii ''hello'') \<noteq> 2"
    using detect_ai_level_no_match [of ud "ascii ''hello''"] by (simp add: hello_scores)
qed

text \<open>
  Claim C8, as amended. The expectation score is \<open>min(0.5 + 0.2*matches, 1.0)\<close> when
  \<open>matches\<close> is at least 1 and 0.7 when it is 0, where \<open>matches\<close> counts the expectation
  keywords in the prompt whose expectation the response satisfies; so it is 0.7, 0.9 or 1.0,
  never 0.5, and it is 0.7 in particular when the prompt has no expectation keyword.
\<close>

theorem expectation_sync_score:
  "calculate_expectation_sync ud prompt response
     = (if 0 < expectation_matches (str_lower ud prompt) (str_lower ud response)
        then min (0.5 + 0.2 * real (expectation_matches (str_lower ud prompt) (str_lower ud response))) 1.0
        else 0.7)
   \<and> expectation_matches (str_lower ud prompt) (str_lower ud response)
       = length (filter (\<lambda>word. str_in (ascii word) (str_lower ud prompt)
                                 \<and> expectation_met word (str_lower ud response)) expectation_words)
   \<and> calculate_expectation_sync ud prompt response \<in> {0.7, 0.9, 1}
   \<and> (expectation_matches (str_lower ud prompt) (str_lower ud response) = 0
        \<longrightarrow> calculate_expectation_sync ud prompt response = 0.7)
   \<and> (list_all (\<lambda>word. \<not> str_in (ascii word) (str_lower ud prompt)) expectation_words
        \<longrightarrow> calculate_expectation_sync ud prompt response = 0.7)"
proof -
  have "calculate_expectation_sync ud prompt response \<in> {0.7, 0.9, 1}"
    by (simp add: expectation_sync_cases Let_def)
  moreover have "calculate_expectation_sync ud prompt response = 0.7"
    if "list_all (\<lambda>word. \<not> str_in (ascii word) (str_lower ud prompt)) expectation_words"
    using expectation_matches_none [OF that, of "str_lower ud response"]
    by (simp add: calculate_expectation_sync_def Let_def)
  moreover have "expectation_matches (str_lower ud prompt) (str_lower ud response)
       = length (filter (\<lambda>word. str_in (ascii word) (str_lower ud prompt)
                                 \<and> expectation_met word (str_lower ud response)) expectation_words)"
    by (simp add: expectation_matches_def)
  ultimately show ?thesis by (simp add: calculate_expectation_sync_def Let_def mult.commute)
qed

text \<open>
  The amended claim C8 on the prompt \<open>hi\<close>, which has no expectation keyword, and on the
  prompt \<open>list\<close>, whose expectation the response \<open>hello\<close> does not satisfy.
\<close>

theorem expectation_sync_score_witness:
  "\<forall>ud. calculate_expectation_sync ud (ascii ''hi'') (ascii ''ok'') = 0.7
      \<and> expectation_matches (str_lower ud (ascii ''list'')) (str_lower ud (ascii ''hello'')) = 0
      \<and> calculate_expectation_sync ud (ascii ''list'') (ascii ''hello'') = 0.7"
proof
  fix ud
  have "calculate_expectation_sync ud (ascii ''hi'') (ascii ''ok'') = 0.7"
    using expectation_sync_score [of ud "ascii ''hi''" "ascii ''ok''"] hi_no_expectation [of ud]
    by blast
  moreover have "expectation_matches (str_lower ud (ascii ''list'')) (str_lower ud (ascii ''hello'')) = 0"
    by (simp add: list_expectation)
  moreover from this
  have "calculate_expectation_sync ud (ascii ''list'') (ascii ''hello'') = 0.7"
    using expectation_sync_score [of ud "ascii ''list''" "ascii ''hello''"] by blast
  ultimately
  show "calculate_expectation_sync ud (ascii ''hi'') (ascii ''ok'') = 0.7
      \<and> expectation_matches (str_lower ud (ascii ''list'')) (str_lower ud (ascii ''hello'')) = 0
      \<and> calculate_expectation_sync ud (ascii ''list'') (ascii ''hello'') = 0.7"
    by simp
qed

text \<open>
  Claim C8 as stated does not hold: the prompt \<open>list\<close> has an expectation keyword, the
  response \<open>hello\<close> satisfies none, and the score is 0.7, not 0.5.
\<close>

theorem expectation_sync_counterexample:
  "\<forall>ud. str_in (ascii ''list'') (str_lower ud (ascii ''list''))
      \<and> ''list'' \<in> set expectation_words
      \<and> expectation_matches (str_lower ud (ascii ''list'')) (str_lower ud (ascii ''hello'')) = 0
      \<and> calculate_expectation_sync ud (ascii ''list'') (ascii ''hello'') = 0.7
      \<and> calculate_expectation_sync ud (ascii ''list'') (ascii ''hello'') \<noteq> 0.5"
  by (simp add: list_expectation expectation_words_def)




text \<open>
  Claim C10. For every prompt and every response the AM score is at most 1.0, before and
  after its rounding: the style names \<open>bounded\<close>, \<open>bullet points\<close>, \<open>analogy\<close>, \<open>overview\<close>,
  \<open>iterative\<close>, \<open>suggestive\<close> and \<open>questioning\<close> have no detector and score 0, the averaged
  style match stays below 0.6 for every intent, and for the intent \<open>precision_seeker\<close> the
  AM score is at most 0.9.
\<close>

theorem alignment_never_above_neutral:
  "am_score (am_analyze ud prompt response) \<le> 1
   \<and> calculate_am intent (am_analyze_ai_style ud response) response \<le> 1
   \<and> style_match_score intent (am_analyze_ai_style ud response) < 0.6
   \<and> list_all (\<lambda>name. style_get (am_analyze_ai_style ud response) name = 0) missing_styles
   \<and> list_all (\<lambda>name. name \<notin> set (map style_name response_styles)) missing_styles
   \<and> (detected (am_analyze ud prompt response) = precision_seeker
        \<longrightarrow> am_score (am_analyze ud prompt response) \<le> 0.9)"
proof -
  have "style_match_score intent (am_analyze_ai_style ud response) < 0.6"
    using style_match_below [of intent ud response] by simp
  moreover have "list_all (\<lambda>name. style_get (am_analyze_ai_style ud response) name = 0) missing_styles"
    by (simp add: missing_styles_def style_get_missing)
  moreover have "list_all (\<lambda>name. name \<notin> set (map style_name response_styles)) missing_styles"
    by (simp add: missing_styles_def response_styles_def)
  ultimately show ?thesis
    using am_score_le_1 [of ud prompt response] am_score_precision [of ud prompt response]
      calculate_am_le_1 [of intent ud response]
    by simp
qed

text \<open>
  Claim C10 on the prompt \<open>hi\<close>, whose intent is \<open>precision_seeker\<close>, and on an exchange of
  the intent \<open>co_creation_partner\<close> where the AM score reaches 1.0.
\<close>

theorem alignment_never_above_neutral_witness:
  "\<forall>ud. detected (am_analyze ud (ascii ''hi'') (ascii ''ok'')) = precision_seeker
      \<and> am_score (am_analyze ud (ascii ''hi'') (ascii ''ok'')) = 0.8
      \<and> am_score (am_analyze ud (ascii ''hi'') (ascii ''ok'')) \<le> 0.9
      \<and> detected (am_analyze ud build_together your_input) = co_creation_partner
      \<and> am_score (am_analyze ud build_together your_input) = 1"
proof
  fix ud
  show "detected (am_analyze ud (ascii ''hi'') (ascii ''ok'')) = precision_seeker
      \<and> am_score (am_analyze ud (ascii ''hi'') (ascii ''ok'')) = 0.8
      \<and> am_score (am_analyze ud (ascii ''hi'') (ascii ''ok'')) \<le> 0.9
      \<and> detected (am_analyze ud build_together your_input) = co_creation_partner
      \<and> am_score (am_analyze ud build_together your_input) = 1"
    using alignment_never_above_neutral [of ud "ascii ''hi''" "ascii ''ok''"] hi_intent [of ud]
      hi_ok_analyzers [of ud]
    by (simp add: am_build_together)
qed

end
